theory Spec2Isabelle
  imports Main
begin

section \<open>JavaScript values handled by the server\<close>

text \<open>
  The server (\<^verbatim>\<open>src/server.js\<close>) reads JSON documents and answers with JSON bodies.
  A parsed JSON value is a \<open>json\<close>; the JavaScript value \<^verbatim>\<open>undefined\<close> (an absent
  property, an absent query parameter) is \<open>None\<close> of \<open>json option\<close> or \<open>string option\<close>.

  Scope of the model.
  \<^item> A JavaScript number is a double. An integer is \<open>JNum n\<close>, and the doubles agree
    with the mathematical integers, in value, in print and when parsed, for the safe
    integers: magnitude below \<open>2^53\<close> (\<open>safe_integer\<close>). Every result that depends on
    this agreement carries the bound as a hypothesis. Any other number (a fraction, an
    integer of magnitude \<open>2^53\<close> or more) is \<open>JFloat s\<close>, where \<open>s\<close> is the string that
    JavaScript prints for it, such as \<^verbatim>\<open>101.9\<close> or \<^verbatim>\<open>1e+21\<close>.
  \<^item> A string is a list of 8-bit characters, read as the code units \<open>0..255\<close>.
  \<^item> A query parameter is a string or absent (a parameter given once); the arrays and
    objects that the query parser builds from repeated or bracketed parameters are not
    modelled.
\<close>

datatype json =
    JNull
  | JBool bool
  | JNum int
  | JFloat string
  | JStr string
  | JArr "json list"
  | JObj "(string \<times> json) list"

text \<open>\<^verbatim>\<open>Number.isSafeInteger\<close>, on integers.\<close>

definition safe_integer :: "int \<Rightarrow> bool" where
  "safe_integer n = (\<bar>n\<bar> < 2 ^ 53)"

text \<open>
  Truthiness (\<^verbatim>\<open>!v\<close>, \<^verbatim>\<open>if (v)\<close>, \<^verbatim>\<open>v || w\<close>): every array and object is truthy, and so
  is a number kept as \<open>JFloat\<close> (it is not zero).
\<close>

fun truthy :: "json \<Rightarrow> bool" where
  "truthy JNull = False"
| "truthy (JBool b) = b"
| "truthy (JNum n) = (n \<noteq> 0)"
| "truthy (JFloat s) = True"
| "truthy (JStr s) = (s \<noteq> [])"
| "truthy (JArr xs) = True"
| "truthy (JObj kvs) = True"

text \<open>\<^verbatim>\<open>v || null\<close> for a property \<open>v\<close> that may be absent.\<close>

fun or_null :: "json option \<Rightarrow> json" where
  "or_null None = JNull"
| "or_null (Some v) = (if truthy v then v else JNull)"

text \<open>\<^verbatim>\<open>!s\<close> for a query parameter: absent or the empty string.\<close>

fun missing :: "string option \<Rightarrow> bool" where
  "missing None = True"
| "missing (Some s) = (s = [])"

subsection \<open>Number to string\<close>

definition digit_char :: "nat \<Rightarrow> char" where
  "digit_char d = char_of (48 + d)"

function nat_to_string :: "nat \<Rightarrow> string" where
  "nat_to_string n =
     (if n < 10 then [digit_char n] else nat_to_string (n div 10) @ [digit_char (n mod 10)])"
  by pat_completeness auto
termination
  by (relation "measure id") auto

declare nat_to_string.simps [simp del]

text \<open>
  \<^verbatim>\<open>Number.prototype.toString()\<close> on a safe integer: its decimal digits, \<^verbatim>\<open>-\<close> when
  negative. (JavaScript prints larger integers with the shortest digits that read back
  as the same double, and from \<open>10^21\<close> on with an exponent; where the handlers print a
  number, the results below assume \<open>safe_integer\<close>.) On any integer it is the decimal
  numeral, the spelling of an id in a request.
\<close>

definition number_to_string :: "int \<Rightarrow> string" where
  "number_to_string n =
     (if n < 0 then CHR ''-'' # nat_to_string (nat (- n)) else nat_to_string (nat n))"

subsection \<open>\<^verbatim>\<open>parseInt(s, 10)\<close>\<close>

text \<open>
  The white space that \<^verbatim>\<open>parseInt\<close> trims from the start of its input, among the
  code units below 256: TAB, LF, VT, FF, CR, SP and NBSP.
\<close>

definition is_white :: "char \<Rightarrow> bool" where
  "is_white c = ((of_char c :: nat) \<in> {9, 10, 11, 12, 13, 32, 160})"

definition is_digit :: "char \<Rightarrow> bool" where
  "is_digit c = (48 \<le> (of_char c :: nat) \<and> (of_char c :: nat) \<le> 57)"

definition digit_val :: "char \<Rightarrow> nat" where
  "digit_val c = of_char c - 48"

definition digits_val :: "string \<Rightarrow> nat" where
  "digits_val ds = foldl (\<lambda>a c. 10 * a + digit_val c) 0 ds"

text \<open>The optional sign: \<open>(negative, rest)\<close>.\<close>

fun strip_sign :: "string \<Rightarrow> bool \<times> string" where
  "strip_sign [] = (False, [])"
| "strip_sign (c # cs) =
     (if c = CHR ''-'' then (True, cs)
      else if c = CHR ''+'' then (False, cs)
      else (False, c # cs))"

text \<open>
  \<^verbatim>\<open>parseInt(s, 10)\<close>: trim leading white space, take the sign, take the longest run of
  decimal digits (radix 10 strips no \<^verbatim>\<open>0x\<close>); no digit gives \<^verbatim>\<open>NaN\<close>, here \<open>None\<close>.
  \<^verbatim>\<open>-0\<close> is \<open>0\<close>: \<^verbatim>\<open>===\<close> and \<^verbatim>\<open>includes\<close> do not tell them apart.
  The result is the exact value of the digits. JavaScript returns the nearest double,
  which is that value when it is a safe integer; the results below that depend on the
  value carry \<open>safe_integer\<close> as a hypothesis.
\<close>

definition parseInt :: "string \<Rightarrow> int option" where
  "parseInt s =
     (let (neg, u) = strip_sign (dropWhile is_white s);
          z = takeWhile is_digit u
      in if z = [] then None
         else Some (if neg then - int (digits_val z) else int (digits_val z)))"

section \<open>The data store\<close>

text \<open>
  The documents \<^verbatim>\<open>data/marketing-data.json\<close>, \<^verbatim>\<open>data/users.json\<close> and
  \<^verbatim>\<open>data/encrypted-users.json\<close> are not part of the sources; their shape is the data
  model of the specification. The fields a handler tests or compares carry the type the
  data model gives them; the fields a handler only copies are \<open>json\<close> values.
  A collection that a handler tests for presence is an \<open>option\<close>.
\<close>

record regional_performance =
  rp_region :: string
  rp_country :: json
  rp_impressions :: json
  rp_clicks :: json
  rp_conversions :: json
  rp_spend :: json
  rp_revenue :: json
  rp_ctr :: json
  rp_conversion_rate :: json
  rp_cpc :: json
  rp_cpa :: json
  rp_roas :: json

record creative =
  cr_id :: int
  cr_name :: json
  cr_format :: json
  cr_url :: json
  cr_performance_score :: json
  cr_is_primary :: json
  cr_impressions :: json
  cr_clicks :: json
  cr_ctr :: json
  cr_a_b_test_variant :: "json option"

record campaign =
  c_id :: int
  c_name :: json
  c_status :: json
  c_medium :: json
  c_regional_performance :: "regional_performance list option"
  c_creatives :: "creative list option"

record marketing_data =
  campaigns :: "campaign list"

record user =
  u_id :: json
  u_username :: string
  u_password :: string
  u_email :: json
  u_role :: string

record users_data =
  users :: "user list"

section \<open>Responses\<close>

text \<open>
  A body is a JSON value built by a handler, a stored campaign sent as it is, or the
  grant of the protected routes, which embeds the whole marketing document under
  \<^verbatim>\<open>data\<close> beside \<^verbatim>\<open>message\<close> and \<^verbatim>\<open>user\<close>.
\<close>

datatype body =
    JsonBody json
  | CampaignBody campaign
  | GrantedBody string json marketing_data

record response =
  status :: nat
  body :: body

text \<open>
  A file that cannot be read or parsed makes \<^verbatim>\<open>JSON.parse(fs.readFileSync(...))\<close> throw;
  the document is then \<open>None\<close>. The unprotected routes do not catch the exception.
\<close>

datatype failure = Unhandled

definition error_body :: "string \<Rightarrow> string \<Rightarrow> body" where
  "error_body e m = JsonBody (JObj [(''error'', JStr e), (''message'', JStr m)])"

section \<open>GET /campaign-data\<close>

definition campaign_data :: "string option \<Rightarrow> marketing_data option \<Rightarrow> failure + response" where
  "campaign_data campaignId file =
     (if missing campaignId then
        Inr \<lparr>status = 400,
             body = error_body ''Missing campaign ID'' ''campaignId query parameter is required''\<rparr>
      else case parseInt (the campaignId) of
        None \<Rightarrow>
          Inr \<lparr>status = 400,
               body = error_body ''Invalid campaign ID'' ''campaignId must be a valid number''\<rparr>
      | Some numericCampaignId \<Rightarrow>
          (case file of
             None \<Rightarrow> Inl Unhandled
           | Some data \<Rightarrow>
               (case find (\<lambda>c. c_id c = numericCampaignId) (campaigns data) of
                  None \<Rightarrow>
                    Inr \<lparr>status = 404,
                         body = error_body ''Campaign not found''
                                  ''No campaign found with the provided ID''\<rparr>
                | Some campaign \<Rightarrow> Inr \<lparr>status = 200, body = CampaignBody campaign\<rparr>)))"

section \<open>GET /region-data\<close>

text \<open>The object literal pushed for a campaign and its matching entry.\<close>

definition region_row :: "campaign \<Rightarrow> regional_performance \<Rightarrow> json" where
  "region_row campaign regionPerformance = JObj
     [(''campaign'', JStr (number_to_string (c_id campaign))),
      (''name'', c_name campaign),
      (''region'', JStr (rp_region regionPerformance)),
      (''country'', rp_country regionPerformance),
      (''impressions'', rp_impressions regionPerformance),
      (''clicks'', rp_clicks regionPerformance),
      (''conversions'', rp_conversions regionPerformance),
      (''spend'', rp_spend regionPerformance),
      (''revenue'', rp_revenue regionPerformance),
      (''ctr'', rp_ctr regionPerformance),
      (''conversion_rate'', rp_conversion_rate regionPerformance),
      (''cpc'', rp_cpc regionPerformance),
      (''cpa'', rp_cpa regionPerformance),
      (''roas'', rp_roas regionPerformance)]"

text \<open>The body of \<^verbatim>\<open>data.campaigns.forEach\<close>: \<open>regionalData\<close> before and after one campaign.\<close>

definition region_step :: "string \<Rightarrow> json list \<Rightarrow> campaign \<Rightarrow> json list" where
  "region_step region regionalData campaign =
     (case c_regional_performance campaign of
        None \<Rightarrow> regionalData
      | Some rps \<Rightarrow>
          (case find (\<lambda>rp. rp_region rp = region) rps of
             None \<Rightarrow> regionalData
           | Some regionPerformance \<Rightarrow> regionalData @ [region_row campaign regionPerformance]))"

definition region_data :: "string option \<Rightarrow> marketing_data option \<Rightarrow> failure + response" where
  "region_data region file =
     (if missing region then
        Inr \<lparr>status = 400,
             body = error_body ''Missing region'' ''region query parameter is required''\<rparr>
      else case file of
        None \<Rightarrow> Inl Unhandled
      | Some data \<Rightarrow>
          (let regionalData = foldl (region_step (the region)) [] (campaigns data)
           in if length regionalData = 0 then
                Inr \<lparr>status = 404,
                     body = error_body ''No campaigns found''
                              (''No campaigns found for region: '' @ the region)\<rparr>
              else Inr \<lparr>status = 200, body = JsonBody (JArr regionalData)\<rparr>))"

section \<open>POST /creative-data\<close>

subsection \<open>\<^verbatim>\<open>ToString\<close> on a parsed JSON value\<close>

fun join :: "string \<Rightarrow> string list \<Rightarrow> string" where
  "join sep [] = []"
| "join sep [x] = x"
| "join sep (x # y # ys) = x @ sep @ join sep (y # ys)"

text \<open>
  \<^verbatim>\<open>parseInt(id, 10)\<close> and \<^verbatim>\<open>creativeIds.join(', ')\<close> convert a value to a string.
  An array is its elements joined by a comma, a \<^verbatim>\<open>null\<close> element giving the empty
  string; a plain object is \<^verbatim>\<open>[object Object]\<close>; a number kept as \<open>JFloat\<close> is its
  string.
\<close>

fun to_string :: "json \<Rightarrow> string" where
  "to_string JNull = ''null''"
| "to_string (JBool b) = (if b then ''true'' else ''false'')"
| "to_string (JNum n) = number_to_string n"
| "to_string (JFloat s) = s"
| "to_string (JStr s) = s"
| "to_string (JArr xs) = join '','' (map (\<lambda>x. if x = JNull then [] else to_string x) xs)"
| "to_string (JObj kvs) = ''[object Object]''"

text \<open>
  The values on which \<open>to_string\<close> is what JavaScript prints: every integer in them, at
  any depth, is safe.
\<close>

fun exact :: "json \<Rightarrow> bool" where
  "exact (JNum n) = safe_integer n"
| "exact (JArr xs) = list_all exact xs"
| "exact (JObj kvs) = list_all (\<lambda>kv. exact (snd kv)) kvs"
| "exact v = True"

definition array_join :: "string \<Rightarrow> json list \<Rightarrow> string" where
  "array_join sep xs = join sep (map (\<lambda>x. if x = JNull then [] else to_string x) xs)"

text \<open>
  The conversion of an object calls its \<^verbatim>\<open>toString\<close>. A parsed JSON object with an own
  property of that name holds a value that cannot be called, and the inherited
  \<^verbatim>\<open>valueOf\<close> returns the object itself, so the conversion throws a \<^verbatim>\<open>TypeError\<close>;
  so does the conversion of an array with such an element.
\<close>

fun to_string_throws :: "json \<Rightarrow> bool" where
  "to_string_throws (JObj kvs) = (''toString'' \<in> set (map fst kvs))"
| "to_string_throws (JArr xs) = list_ex to_string_throws xs"
| "to_string_throws v = False"

subsection \<open>The handler\<close>

definition creative_row :: "campaign \<Rightarrow> creative \<Rightarrow> json" where
  "creative_row campaign creative = JObj
     [(''campaign_id'', JNum (c_id campaign)),
      (''campaign_name'', c_name campaign),
      (''campaign_status'', c_status campaign),
      (''campaign_medium'', c_medium campaign),
      (''creative_id'', JNum (cr_id creative)),
      (''creative_name'', cr_name creative),
      (''creative_format'', cr_format creative),
      (''creative_url'', cr_url creative),
      (''performance_score'', cr_performance_score creative),
      (''is_primary'', cr_is_primary creative),
      (''impressions'', cr_impressions creative),
      (''clicks'', cr_clicks creative),
      (''ctr'', cr_ctr creative),
      (''a_b_test_variant'', or_null (cr_a_b_test_variant creative))]"

text \<open>
  \<^verbatim>\<open>creativeIds.map(...).filter(id => id !== null)\<close>: the \<^verbatim>\<open>null\<close> that stands for
  \<^verbatim>\<open>NaN\<close> is \<open>None\<close>.
\<close>

definition numeric_ids :: "json list \<Rightarrow> int option list" where
  "numeric_ids creativeIds =
     filter (\<lambda>id. id \<noteq> None) (map (\<lambda>id. parseInt (to_string id)) creativeIds)"

text \<open>The inner and the outer \<^verbatim>\<open>forEach\<close>: \<open>creativePerformanceData\<close> before and after.\<close>

definition creative_step :: "int option list \<Rightarrow> campaign \<Rightarrow> json list \<Rightarrow> creative \<Rightarrow> json list" where
  "creative_step numericCreativeIds campaign acc creative =
     (if Some (cr_id creative) \<in> set numericCreativeIds
      then acc @ [creative_row campaign creative] else acc)"

definition campaign_step :: "int option list \<Rightarrow> json list \<Rightarrow> campaign \<Rightarrow> json list" where
  "campaign_step numericCreativeIds acc campaign =
     (case c_creatives campaign of
        None \<Rightarrow> acc
      | Some crs \<Rightarrow> foldl (creative_step numericCreativeIds campaign) acc crs)"

definition creative_data :: "json option \<Rightarrow> marketing_data option \<Rightarrow> failure + response" where
  "creative_data creativeIds file =
     (case creativeIds of
        Some (JArr ids) \<Rightarrow>
          if length ids = 0 then
            Inr \<lparr>status = 400,
                 body = error_body ''Empty creative IDs array''
                          ''Please provide at least one creative ID''\<rparr>
          else if list_ex to_string_throws ids then Inl Unhandled
          else
            let numericCreativeIds = numeric_ids ids
            in if length numericCreativeIds = 0 then
                 Inr \<lparr>status = 400,
                      body = error_body ''Invalid creative IDs''
                               ''All creative IDs must be valid numbers''\<rparr>
               else (case file of
                 None \<Rightarrow> Inl Unhandled
               | Some data \<Rightarrow>
                   (let creativePerformanceData =
                          foldl (campaign_step numericCreativeIds) [] (campaigns data)
                    in if length creativePerformanceData = 0 then
                         Inr \<lparr>status = 404,
                              body = error_body ''No creatives found''
                                       (''No creatives found for the provided IDs: ''
                                          @ array_join '', '' ids)\<rparr>
                       else
                         Inr \<lparr>status = 200,
                              body = JsonBody (JObj
                                [(''message'',
                                    JStr ''Creative performance data retrieved successfully''),
                                 (''requested_ids'', JArr ids),
                                 (''found_creatives'',
                                    JNum (int (length creativePerformanceData))),
                                 (''data'', JArr creativePerformanceData)])\<rparr>))
      | _ \<Rightarrow>
          Inr \<lparr>status = 400,
               body = JsonBody (JObj
                 [(''error'', JStr ''Missing or invalid creative IDs''),
                  (''message'',
                     JStr ''creativeIds must be provided as an array in the request body''),
                  (''example'', JObj [(''creativeIds'', JArr [JNum 101, JNum 102, JNum 201])])])\<rparr>)"

section \<open>The protected routes\<close>

text \<open>The \<^verbatim>\<open>user\<close> object of the 200 and 403 bodies.\<close>

definition user_summary :: "user \<Rightarrow> json" where
  "user_summary user = JObj
     [(''id'', u_id user),
      (''username'', JStr (u_username user)),
      (''email'', u_email user),
      (''role'', JStr (u_role user))]"

text \<open>The \<^verbatim>\<open>catch\<close> block of both routes.\<close>

definition internal_error :: response where
  "internal_error =
     \<lparr>status = 500,
      body = error_body ''Internal server error''
               ''An error occurred while processing your request''\<rparr>"

definition missing_credentials :: "string \<Rightarrow> response" where
  "missing_credentials example =
     \<lparr>status = 400,
      body = JsonBody (JObj
        [(''error'', JStr ''Missing credentials''),
         (''message'', JStr ''Username and password query parameters are required''),
         (''example'', JStr example)])\<rparr>"

definition access_denied_user :: "user \<Rightarrow> response" where
  "access_denied_user user =
     \<lparr>status = 403,
      body = JsonBody (JObj
        [(''error'', JStr ''Access denied''),
         (''message'', JStr ''User must be an admin to access this data.''),
         (''user'', user_summary user)])\<rparr>"

definition simple_protected_data ::
  "string option \<Rightarrow> string option \<Rightarrow> users_data option \<Rightarrow> marketing_data option \<Rightarrow> response" where
  "simple_protected_data username password users_file marketing_file =
     (if missing username \<or> missing password then
        missing_credentials
          ''/simple-protected-data?username=ahmed_hassan&password=ahmedadmin123''
      else case users_file of
        None \<Rightarrow> internal_error
      | Some usersData \<Rightarrow>
          (case find (\<lambda>u. u_username u = the username) (users usersData) of
             None \<Rightarrow> \<lparr>status = 404, body = error_body ''User not found'' ''User not found''\<rparr>
           | Some user \<Rightarrow>
               if u_password user \<noteq> the password then
                 \<lparr>status = 401, body = error_body ''Invalid credentials'' ''User not found''\<rparr>
               else if u_role user = ''admin'' then
                 (case marketing_file of
                    None \<Rightarrow> internal_error
                  | Some marketingData \<Rightarrow>
                      \<lparr>status = 200,
                       body = GrantedBody ''Access granted - Admin user authenticated''
                                (user_summary user) marketingData\<rparr>)
               else if u_role user = ''user'' then access_denied_user user
               else \<lparr>status = 403, body = error_body ''Access denied'' ''User not found''\<rparr>))"

text \<open>
  \<^verbatim>\<open>simpleDecrypt\<close> comes from \<^verbatim>\<open>auth/decrypt.js\<close>, which is not part of the sources: the
  route takes it as a parameter, a function from strings to strings.
\<close>

definition encrypted_protected_data ::
  "(string \<Rightarrow> string) \<Rightarrow> string option \<Rightarrow> string option \<Rightarrow> users_data option
     \<Rightarrow> marketing_data option \<Rightarrow> response" where
  "encrypted_protected_data simpleDecrypt username password users_file marketing_file =
     (if missing username \<or> missing password then
        missing_credentials ''/protected-data?username=ahmed_hassan&password=hotlkhktpu123''
      else case users_file of
        None \<Rightarrow> internal_error
      | Some encryptedUsersData \<Rightarrow>
          (case find (\<lambda>u. u_username u = the username) (users encryptedUsersData) of
             None \<Rightarrow> \<lparr>status = 404, body = error_body ''User not found'' ''User not found''\<rparr>
           | Some user \<Rightarrow>
               (let decryptedStoredPassword = simpleDecrypt (u_password user);
                    decryptedProvidedPassword = simpleDecrypt (the password)
                in if decryptedStoredPassword \<noteq> decryptedProvidedPassword then
                     \<lparr>status = 401,
                      body = error_body ''Invalid credentials'' ''User not found''\<rparr>
                   else if u_role user = ''admin'' then
                     (case marketing_file of
                        None \<Rightarrow> internal_error
                      | Some marketingData \<Rightarrow>
                          \<lparr>status = 200,
                           body = GrantedBody ''Access granted - Admin user authenticated''
                                    (user_summary user) marketingData\<rparr>)
                   else if u_role user = ''user'' then access_denied_user user
                   else \<lparr>status = 403,
                         body = error_body ''Access denied'' ''User not found''\<rparr>)))"

section \<open>A small data store\<close>

text \<open>Concrete documents on which the handlers are run.\<close>

definition demo_rp :: "string \<Rightarrow> regional_performance" where
  "demo_rp r =
     \<lparr>rp_region = r, rp_country = JStr ''UAE'', rp_impressions = JNum 1000,
      rp_clicks = JNum 50, rp_conversions = JNum 5, rp_spend = JNum 200,
      rp_revenue = JNum 900, rp_ctr = JNum 5, rp_conversion_rate = JNum 10,
      rp_cpc = JNum 4, rp_cpa = JNum 40, rp_roas = JNum 4\<rparr>"

definition demo_creative :: "int \<Rightarrow> json option \<Rightarrow> creative" where
  "demo_creative i v =
     \<lparr>cr_id = i, cr_name = JStr ''Banner'', cr_format = JStr ''Image'',
      cr_url = JStr ''https://example.com/banner.jpg'', cr_performance_score = JNum 8,
      cr_is_primary = JBool True, cr_impressions = JNum 500, cr_clicks = JNum 20,
      cr_ctr = JNum 4, cr_a_b_test_variant = v\<rparr>"

definition demo_campaign1 :: campaign where
  "demo_campaign1 =
     \<lparr>c_id = 1, c_name = JStr ''Spring'', c_status = JStr ''Active'',
      c_medium = JStr ''Instagram'',
      c_regional_performance = Some [demo_rp ''Dubai'', demo_rp ''''],
      c_creatives = Some [demo_creative 101 None, demo_creative 102 (Some (JStr ''A''))]\<rparr>"

definition demo_campaign2 :: campaign where
  "demo_campaign2 =
     \<lparr>c_id = 2, c_name = JStr ''Summer'', c_status = JStr ''Paused'',
      c_medium = JStr ''Facebook'', c_regional_performance = None, c_creatives = None\<rparr>"

definition demo_campaign3 :: campaign where
  "demo_campaign3 =
     \<lparr>c_id = 3, c_name = JStr ''Autumn'', c_status = JStr ''Active'',
      c_medium = JStr ''Google'',
      c_regional_performance = Some [demo_rp ''Riyadh'', demo_rp ''Dubai''],
      c_creatives = Some [demo_creative 201 (Some (JNum 0))]\<rparr>"

definition demo_data :: marketing_data where
  "demo_data = \<lparr>campaigns = [demo_campaign1, demo_campaign2, demo_campaign3]\<rparr>"

definition demo_admin :: user where
  "demo_admin =
     \<lparr>u_id = JNum 1, u_username = ''ahmed_hassan'', u_password = ''ahmedadmin123'',
      u_email = JStr ''ahmed@example.com'', u_role = ''admin''\<rparr>"

definition demo_user :: user where
  "demo_user =
     \<lparr>u_id = JNum 2, u_username = ''omar_mahmoud'', u_password = ''omar789pass'',
      u_email = JStr ''omar@example.com'', u_role = ''user''\<rparr>"

definition demo_guest :: user where
  "demo_guest =
     \<lparr>u_id = JNum 3, u_username = ''sara_ali'', u_password = ''sara456'',
      u_email = JStr ''sara@example.com'', u_role = ''guest''\<rparr>"

definition demo_users :: users_data where
  "demo_users = \<lparr>users = [demo_admin, demo_user, demo_guest]\<rparr>"

text \<open>
  A stand-in for \<^verbatim>\<open>simpleDecrypt\<close> on which the encrypted route is run: lowercase
  letters are shifted back by 7, the other characters kept. It takes the password
  \<^verbatim>\<open>hotlkhktpu123\<close> of the example in the route's comment to \<^verbatim>\<open>ahmedadmin123\<close>.
\<close>

definition demo_decrypt :: "string \<Rightarrow> string" where
  "demo_decrypt s =
     map (\<lambda>c. if 97 \<le> (of_char c :: nat) \<and> (of_char c :: nat) \<le> 122
              then char_of (97 + ((of_char c :: nat) - 97 + 19) mod 26) else c) s"

definition demo_encrypted_users :: users_data where
  "demo_encrypted_users =
     \<lparr>users = [demo_admin\<lparr>u_password := ''hotlkhktpu123''\<rparr>,
               demo_user\<lparr>u_password := ''vthy789whzz''\<rparr>,
               demo_guest\<lparr>u_password := ''zhyh456''\<rparr>]\<rparr>"

section \<open>Reading responses and stating the scans\<close>

text \<open>The names and the values of the properties of a JSON object.\<close>

fun field_names :: "json \<Rightarrow> string list" where
  "field_names (JObj kvs) = map fst kvs"
| "field_names v = []"


text \<open>
  The region scan, as the specification words it: a campaign has the region when its
  collection is present and holds an entry of that region; its row is built from the
  first such entry.
\<close>

definition has_region :: "string \<Rightarrow> campaign \<Rightarrow> bool" where
  "has_region region c =
     (case c_regional_performance c of
        None \<Rightarrow> False
      | Some rps \<Rightarrow> region \<in> rp_region ` set rps)"

definition matching_entry :: "string \<Rightarrow> campaign \<Rightarrow> regional_performance option" where
  "matching_entry region c =
     (case c_regional_performance c of
        None \<Rightarrow> None
      | Some rps \<Rightarrow> find (\<lambda>rp. rp_region rp = region) rps)"

text \<open>
  The creative scan: the integers read from the requested entries, every creative of the
  dataset with its owning campaign in dataset order, and the creatives whose id is one of
  those integers.
\<close>

definition parsed_ids :: "json list \<Rightarrow> int list" where
  "parsed_ids ids = List.map_filter (\<lambda>id. parseInt (to_string id)) ids"

definition creative_pairs :: "marketing_data \<Rightarrow> (campaign \<times> creative) list" where
  "creative_pairs data =
     concat (map (\<lambda>c. case c_creatives c of None \<Rightarrow> [] | Some crs \<Rightarrow> map (Pair c) crs)
               (campaigns data))"

definition creative_ids :: "marketing_data \<Rightarrow> int list" where
  "creative_ids data = map (\<lambda>(c, cr). cr_id cr) (creative_pairs data)"

definition matched_pairs :: "json list \<Rightarrow> marketing_data \<Rightarrow> (campaign \<times> creative) list" where
  "matched_pairs ids data =
     filter (\<lambda>(c, cr). cr_id cr \<in> set (parsed_ids ids)) (creative_pairs data)"

section \<open>Properties of \<^verbatim>\<open>parseInt\<close> and number printing\<close>

lemma is_digit_digit_char: "d < 10 \<Longrightarrow> is_digit (digit_char d)"
  by (simp add: is_digit_def digit_char_def)

lemma digit_val_digit_char: "d < 10 \<Longrightarrow> digit_val (digit_char d) = d"
  by (simp add: digit_val_def digit_char_def)

lemma nat_to_string_digits: "\<forall>c \<in> set (nat_to_string n). is_digit c"
proof (induction n rule: nat_to_string.induct)
  case (1 n)
  show ?case
  proof (cases "n < 10")
    case True
    then show ?thesis by (simp add: nat_to_string.simps [of n] is_digit_digit_char)
  next
    case False
    with 1 show ?thesis by (simp add: nat_to_string.simps [of n] is_digit_digit_char)
  qed
qed

lemma nat_to_string_nonempty: "nat_to_string n \<noteq> []"
  by (subst nat_to_string.simps) simp

lemma number_to_string_nonempty: "number_to_string n \<noteq> []"
  by (simp add: number_to_string_def nat_to_string_nonempty)

lemma digits_val_snoc: "digits_val (ds @ [c]) = 10 * digits_val ds + digit_val c"
  by (simp add: digits_val_def)

lemma digits_val_nat_to_string: "digits_val (nat_to_string n) = n"
proof (induction n rule: nat_to_string.induct)
  case (1 n)
  show ?case
  proof (cases "n < 10")
    case True
    then show ?thesis
      by (simp add: nat_to_string.simps [of n] digits_val_def digit_val_digit_char)
  next
    case False
    with 1 show ?thesis
      by (simp add: nat_to_string.simps [of n] digits_val_snoc digit_val_digit_char)
  qed
qed

lemma not_white_digit: "is_digit c \<Longrightarrow> \<not> is_white c"
  by (auto simp: is_digit_def is_white_def)

lemma digit_not_sign: "is_digit c \<Longrightarrow> c \<noteq> CHR ''-'' \<and> c \<noteq> CHR ''+''"
  by (auto simp: is_digit_def)

lemma takeWhile_digits:
  assumes "\<forall>c \<in> set ds. is_digit c" and "rest = [] \<or> \<not> is_digit (hd rest)"
  shows "takeWhile is_digit (ds @ rest) = ds"
  using assms by (cases rest) (auto simp: takeWhile_eq_all_conv)

lemma parseInt_digits:
  assumes "ds \<noteq> []" and "\<forall>c \<in> set ds. is_digit c" and "rest = [] \<or> \<not> is_digit (hd rest)"
  shows "parseInt (ds @ rest) = Some (int (digits_val ds))"
proof -
  obtain d ds' where ds: "ds = d # ds'" using assms(1) by (cases ds) auto
  have d: "is_digit d" using assms(2) ds by simp
  have "strip_sign (dropWhile is_white (ds @ rest)) = (False, ds @ rest)"
    using d ds not_white_digit digit_not_sign by simp
  then show ?thesis using takeWhile_digits [OF assms(2,3)] assms(1) by (simp add: parseInt_def)
qed

lemma parseInt_minus_digits:
  assumes "ds \<noteq> []" and "\<forall>c \<in> set ds. is_digit c" and "rest = [] \<or> \<not> is_digit (hd rest)"
  shows "parseInt (CHR ''-'' # ds @ rest) = Some (- int (digits_val ds))"
proof -
  have "\<not> is_white CHR ''-''" by (simp add: is_white_def)
  then show ?thesis using takeWhile_digits [OF assms(2,3)] assms(1) by (simp add: parseInt_def)
qed

lemma parseInt_plus_digits:
  assumes "ds \<noteq> []" and "\<forall>c \<in> set ds. is_digit c" and "rest = [] \<or> \<not> is_digit (hd rest)"
  shows "parseInt (CHR ''+'' # ds @ rest) = Some (int (digits_val ds))"
proof -
  have "\<not> is_white CHR ''+''" by (simp add: is_white_def)
  then show ?thesis using takeWhile_digits [OF assms(2,3)] assms(1) by (simp add: parseInt_def)
qed

lemma parseInt_number_to_string: "parseInt (number_to_string n) = Some n"
proof (cases "n < 0")
  case True
  have "parseInt (CHR ''-'' # nat_to_string (nat (- n)) @ []) =
          Some (- int (digits_val (nat_to_string (nat (- n)))))"
    by (rule parseInt_minus_digits) (simp_all add: nat_to_string_nonempty nat_to_string_digits)
  with True show ?thesis by (simp add: number_to_string_def digits_val_nat_to_string)
next
  case False
  have "parseInt (nat_to_string (nat n) @ []) = Some (int (digits_val (nat_to_string (nat n))))"
    by (rule parseInt_digits) (simp_all add: nat_to_string_nonempty nat_to_string_digits)
  with False show ?thesis by (simp add: number_to_string_def digits_val_nat_to_string)
qed

lemma parseInt_Nil: "parseInt [] = None"
  by (simp add: parseInt_def)

lemma find_c_id_None: "n \<notin> c_id ` set cs \<Longrightarrow> find (\<lambda>c. c_id c = n) cs = None"
  by (auto simp: find_None_iff)

lemma find_c_id_Some:
  "n \<in> c_id ` set cs \<Longrightarrow> \<exists>c. find (\<lambda>c. c_id c = n) cs = Some c \<and> c_id c = n \<and> c \<in> set cs"
proof -
  assume "n \<in> c_id ` set cs"
  then have "find (\<lambda>c. c_id c = n) cs \<noteq> None" by (auto simp: find_None_iff)
  then obtain c where c: "find (\<lambda>c. c_id c = n) cs = Some c" by blast
  then show ?thesis by (auto simp: find_Some_iff)
qed

section \<open>GET /campaign-data: results\<close>

text \<open>
  C4. For every campaign id \<open>n\<close> present in the dataset, the request whose
  \<^verbatim>\<open>campaignId\<close> is the decimal numeral of \<open>n\<close> is answered with status 200 and a body
  that is one campaign of the dataset, the first whose \<^verbatim>\<open>id\<close> is \<open>n\<close>.
\<close>

theorem campaign_data_present:
  assumes "n \<in> c_id ` set (campaigns data)"
  shows "\<exists>c. campaign_data (Some (number_to_string n)) (Some data)
                = Inr \<lparr>status = 200, body = CampaignBody c\<rparr>
             \<and> c_id c = n \<and> c \<in> set (campaigns data)
             \<and> find (\<lambda>c. c_id c = n) (campaigns data) = Some c"
proof -
  obtain c where c: "find (\<lambda>c. c_id c = n) (campaigns data) = Some c" "c_id c = n"
      "c \<in> set (campaigns data)"
    using find_c_id_Some [OF assms] by blast
  have "campaign_data (Some (number_to_string n)) (Some data)
          = Inr \<lparr>status = 200, body = CampaignBody c\<rparr>"
    using c(1) by (simp add: campaign_data_def number_to_string_nonempty parseInt_number_to_string)
  with c show ?thesis by blast
qed

theorem campaign_data_present_witness:
  "(3::int) \<in> c_id ` set (campaigns demo_data)
   \<and> campaign_data (Some ''3'') (Some demo_data)
       = Inr \<lparr>status = 200, body = CampaignBody demo_campaign3\<rparr>"
proof -
  have h: "(3::int) \<in> c_id ` set (campaigns demo_data)"
    by (simp add: demo_data_def demo_campaign3_def)
  have s: "number_to_string 3 = ''3''"
    by code_simp
  have f: "find (\<lambda>c. c_id c = 3) (campaigns demo_data) = Some demo_campaign3"
    by (simp add: demo_data_def demo_campaign1_def demo_campaign2_def demo_campaign3_def)
  from campaign_data_present [OF h] s f show ?thesis using h by auto
qed

text \<open>
  C5, as the code has it. The parameter is classified by \<^verbatim>\<open>parseInt\<close>, not by being a
  numeral: a value from which \<^verbatim>\<open>parseInt\<close> reads a safe integer that is no campaign's
  id gives 404 (so does, in particular, the decimal numeral of such an integer); a
  non-empty value from which \<^verbatim>\<open>parseInt\<close> reads no integer gives 400; an absent or empty
  parameter gives 400. The 400 answers do not depend on the data file.
\<close>

theorem campaign_data_errors:
  "(parseInt s = Some n \<and> safe_integer n \<and> n \<notin> c_id ` set (campaigns data) \<longrightarrow>
      campaign_data (Some s) (Some data)
        = Inr \<lparr>status = 404,
               body = JsonBody (JObj
                 [(''error'', JStr ''Campaign not found''),
                  (''message'', JStr ''No campaign found with the provided ID'')])\<rparr>)
   \<and> (safe_integer m \<and> m \<notin> c_id ` set (campaigns data) \<longrightarrow>
      campaign_data (Some (number_to_string m)) (Some data)
        = Inr \<lparr>status = 404,
               body = JsonBody (JObj
                 [(''error'', JStr ''Campaign not found''),
                  (''message'', JStr ''No campaign found with the provided ID'')])\<rparr>)
   \<and> (t \<noteq> [] \<and> parseInt t = None \<longrightarrow>
      campaign_data (Some t) file
        = Inr \<lparr>status = 400,
               body = JsonBody (JObj
                 [(''error'', JStr ''Invalid campaign ID''),
                  (''message'', JStr ''campaignId must be a valid number'')])\<rparr>)
   \<and> campaign_data None file
        = Inr \<lparr>status = 400,
               body = JsonBody (JObj
                 [(''error'', JStr ''Missing campaign ID''),
                  (''message'', JStr ''campaignId query parameter is required'')])\<rparr>
   \<and> campaign_data (Some []) file
        = Inr \<lparr>status = 400,
               body = JsonBody (JObj
                 [(''error'', JStr ''Missing campaign ID''),
                  (''message'', JStr ''campaignId query parameter is required'')])\<rparr>"
proof (intro conjI impI)
  assume a: "parseInt s = Some n \<and> safe_integer n \<and> n \<notin> c_id ` set (campaigns data)"
  then have "s \<noteq> []" using parseInt_Nil by auto
  then show "campaign_data (Some s) (Some data)
        = Inr \<lparr>status = 404,
               body = JsonBody (JObj
                 [(''error'', JStr ''Campaign not found''),
                  (''message'', JStr ''No campaign found with the provided ID'')])\<rparr>"
    using a by (simp add: campaign_data_def find_c_id_None error_body_def)
next
  assume "safe_integer m \<and> m \<notin> c_id ` set (campaigns data)"
  then show "campaign_data (Some (number_to_string m)) (Some data)
        = Inr \<lparr>status = 404,
               body = JsonBody (JObj
                 [(''error'', JStr ''Campaign not found''),
                  (''message'', JStr ''No campaign found with the provided ID'')])\<rparr>"
    by (simp add: campaign_data_def number_to_string_nonempty parseInt_number_to_string
          find_c_id_None error_body_def)
next
  assume "t \<noteq> [] \<and> parseInt t = None"
  then show "campaign_data (Some t) file
        = Inr \<lparr>status = 400,
               body = JsonBody (JObj
                 [(''error'', JStr ''Invalid campaign ID''),
                  (''message'', JStr ''campaignId must be a valid number'')])\<rparr>"
    by (simp add: campaign_data_def error_body_def)
next
  show "campaign_data None file
        = Inr \<lparr>status = 400,
               body = JsonBody (JObj
                 [(''error'', JStr ''Missing campaign ID''),
                  (''message'', JStr ''campaignId query parameter is required'')])\<rparr>"
    by (simp add: campaign_data_def error_body_def)
next
  show "campaign_data (Some []) file
        = Inr \<lparr>status = 400,
               body = JsonBody (JObj
                 [(''error'', JStr ''Missing campaign ID''),
                  (''message'', JStr ''campaignId query parameter is required'')])\<rparr>"
    by (simp add: campaign_data_def error_body_def)
qed

text \<open>
  The claim as stated fails on a value that is not a number but starts with one:
  \<^verbatim>\<open>2abc\<close> is answered with campaign 2, and \<^verbatim>\<open>7abc\<close> with 404, neither with 400.
\<close>

theorem campaign_data_non_numeric_counterexample:
  "campaign_data (Some ''2abc'') (Some demo_data)
     = Inr \<lparr>status = 200, body = CampaignBody demo_campaign2\<rparr>
   \<and> campaign_data (Some ''7abc'') (Some demo_data)
     = Inr \<lparr>status = 404,
            body = JsonBody (JObj
              [(''error'', JStr ''Campaign not found''),
               (''message'', JStr ''No campaign found with the provided ID'')])\<rparr>"
proof -
  have p2: "parseInt ''2abc'' = Some 2" by code_simp
  have p7: "parseInt ''7abc'' = Some 7" by code_simp
  have f2: "find (\<lambda>c. c_id c = 2) (campaigns demo_data) = Some demo_campaign2"
    by (simp add: demo_data_def demo_campaign1_def demo_campaign2_def demo_campaign3_def)
  have f7: "find (\<lambda>c. c_id c = 7) (campaigns demo_data) = None"
    by (simp add: demo_data_def demo_campaign1_def demo_campaign2_def demo_campaign3_def)
  show ?thesis using p2 p7 f2 f7 by (simp add: campaign_data_def error_body_def)
qed

theorem campaign_data_errors_witness:
  "parseInt ''7abc'' = Some 7 \<and> safe_integer 7
   \<and> (7::int) \<notin> c_id ` set (campaigns demo_data)
   \<and> safe_integer 9 \<and> (9::int) \<notin> c_id ` set (campaigns demo_data)
   \<and> parseInt ''abc'' = None
   \<and> campaign_data (Some ''7abc'') (Some demo_data)
        = Inr \<lparr>status = 404,
               body = JsonBody (JObj
                 [(''error'', JStr ''Campaign not found''),
                  (''message'', JStr ''No campaign found with the provided ID'')])\<rparr>
   \<and> campaign_data (Some ''9'') (Some demo_data)
        = Inr \<lparr>status = 404,
               body = JsonBody (JObj
                 [(''error'', JStr ''Campaign not found''),
                  (''message'', JStr ''No campaign found with the provided ID'')])\<rparr>
   \<and> campaign_data (Some ''abc'') None
        = Inr \<lparr>status = 400,
               body = JsonBody (JObj
                 [(''error'', JStr ''Invalid campaign ID''),
                  (''message'', JStr ''campaignId must be a valid number'')])\<rparr>"
proof -
  have p7: "parseInt ''7abc'' = Some 7" by code_simp
  have pa: "parseInt ''abc'' = None" by code_simp
  have s9: "number_to_string 9 = ''9''" by code_simp
  have sf: "safe_integer 7" "safe_integer 9" by (simp_all add: safe_integer_def)
  have n7: "(7::int) \<notin> c_id ` set (campaigns demo_data)"
    by (simp add: demo_data_def demo_campaign1_def demo_campaign2_def demo_campaign3_def)
  have n9: "(9::int) \<notin> c_id ` set (campaigns demo_data)"
    by (simp add: demo_data_def demo_campaign1_def demo_campaign2_def demo_campaign3_def)
  from campaign_data_errors [of "''7abc''" 7 demo_data 9 "''abc''" None] p7 pa n7 n9 sf s9
  show ?thesis by simp
qed

text \<open>
  C9. A value made of an optional sign, one or more decimal digits and then a character
  that is not a digit (with anything after it) is not rejected: the answer is 200 or 404,
  never 400. When the value of the digits is a safe integer, \<^verbatim>\<open>parseInt\<close> reads that
  value with the sign, and the answer is the first campaign with that id (200), or 404
  when there is none.
\<close>

theorem campaign_data_numeric_prefix:
  assumes "sg \<in> {[], ''+'', ''-''}" and "ds \<noteq> []" and "\<forall>c \<in> set ds. is_digit c"
    and "\<not> is_digit r"
  shows "(\<exists>resp. campaign_data (Some (sg @ ds @ r # rest)) (Some data) = Inr resp
            \<and> status resp \<noteq> 400 \<and> (status resp = 200 \<or> status resp = 404))
         \<and> (safe_integer (int (digits_val ds)) \<longrightarrow>
              parseInt (sg @ ds @ r # rest)
                = Some (if sg = ''-'' then - int (digits_val ds) else int (digits_val ds))
              \<and> campaign_data (Some (sg @ ds @ r # rest)) (Some data)
                = (case find (\<lambda>c. c_id c
                                    = (if sg = ''-'' then - int (digits_val ds)
                                       else int (digits_val ds)))
                          (campaigns data) of
                     None \<Rightarrow>
                       Inr \<lparr>status = 404,
                            body = JsonBody (JObj
                              [(''error'', JStr ''Campaign not found''),
                               (''message'',
                                  JStr ''No campaign found with the provided ID'')])\<rparr>
                   | Some campaign \<Rightarrow> Inr \<lparr>status = 200, body = CampaignBody campaign\<rparr>))"
proof -
  let ?n = "if sg = ''-'' then - int (digits_val ds) else int (digits_val ds)"
  have tail: "r # rest = [] \<or> \<not> is_digit (hd (r # rest))" using assms(4) by simp
  have p: "parseInt (sg @ ds @ r # rest) = Some ?n"
  proof -
    consider "sg = []" | "sg = ''+''" | "sg = ''-''" using assms(1) by auto
    then show ?thesis
    proof cases
      case 1
      then show ?thesis using parseInt_digits [OF assms(2,3) tail] by simp
    next
      case 2
      then show ?thesis using parseInt_plus_digits [OF assms(2,3) tail] by simp
    next
      case 3
      then show ?thesis using parseInt_minus_digits [OF assms(2,3) tail] by simp
    qed
  qed
  have ne: "sg @ ds @ r # rest \<noteq> []" by simp
  have cd: "campaign_data (Some (sg @ ds @ r # rest)) (Some data)
           = (case find (\<lambda>c. c_id c = ?n) (campaigns data) of
                None \<Rightarrow>
                  Inr \<lparr>status = 404,
                       body = JsonBody (JObj
                         [(''error'', JStr ''Campaign not found''),
                          (''message'', JStr ''No campaign found with the provided ID'')])\<rparr>
              | Some campaign \<Rightarrow> Inr \<lparr>status = 200, body = CampaignBody campaign\<rparr>)"
    unfolding campaign_data_def error_body_def using p ne by (simp del: append_is_Nil_conv)
  have "\<exists>resp. campaign_data (Some (sg @ ds @ r # rest)) (Some data) = Inr resp
            \<and> status resp \<noteq> 400 \<and> (status resp = 200 \<or> status resp = 404)"
    unfolding cd by (cases "find (\<lambda>c. c_id c = ?n) (campaigns data)") simp_all
  with p cd show ?thesis by blast
qed

theorem campaign_data_numeric_prefix_witness:
  "''2'' \<noteq> [] \<and> is_digit CHR ''2'' \<and> \<not> is_digit CHR ''a''
   \<and> safe_integer (int (digits_val ''2''))
   \<and> parseInt ''2abc'' = Some 2
   \<and> campaign_data (Some ''2abc'') (Some demo_data)
       = Inr \<lparr>status = 200, body = CampaignBody demo_campaign2\<rparr>"
proof -
  have h1: "[] \<in> {[], ''+'', ''-''}" by simp
  have h2: "''2'' \<noteq> []" by simp
  have h3: "\<forall>c \<in> set ''2''. is_digit c" by (simp add: is_digit_def)
  have h4: "\<not> is_digit CHR ''a''" by (simp add: is_digit_def)
  have v: "digits_val ''2'' = 2" by (simp add: digits_val_def digit_val_def)
  have sf: "safe_integer (int (digits_val ''2''))" by (simp add: v safe_integer_def)
  have f2: "find (\<lambda>c. c_id c = 2) (campaigns demo_data) = Some demo_campaign2"
    by (simp add: demo_data_def demo_campaign1_def demo_campaign2_def demo_campaign3_def)
  note r = campaign_data_numeric_prefix [OF h1 h2 h3 h4, where rest = "''bc''"
      and data = demo_data, THEN conjunct2, THEN mp, OF sf]
  from r v f2 sf show ?thesis using h3 h4 by simp
qed

section \<open>GET /region-data: results\<close>

lemma region_step_has_region:
  "region_step r acc c =
     (if has_region r c then acc @ [region_row c (the (matching_entry r c))] else acc)"
proof (cases "c_regional_performance c")
  case None
  then show ?thesis by (simp add: region_step_def has_region_def)
next
  case (Some rps)
  show ?thesis
  proof (cases "find (\<lambda>rp. rp_region rp = r) rps")
    case None
    then have "r \<notin> rp_region ` set rps" by (auto simp: find_None_iff)
    with None Some show ?thesis by (simp add: region_step_def has_region_def)
  next
    case (Some rp)
    then have "r \<in> rp_region ` set rps" by (auto simp: find_Some_iff image_iff)
    with Some \<open>c_regional_performance c = Some rps\<close> show ?thesis
      by (simp add: region_step_def has_region_def matching_entry_def)
  qed
qed

lemma foldl_region_step:
  "foldl (region_step r) acc cs =
     acc @ map (\<lambda>c. region_row c (the (matching_entry r c))) (filter (has_region r) cs)"
  by (induction cs arbitrary: acc) (simp_all add: region_step_has_region)

lemma has_region_entry:
  assumes "has_region r c"
  shows "\<exists>rps rp. c_regional_performance c = Some rps \<and> matching_entry r c = Some rp
           \<and> rp \<in> set rps \<and> rp_region rp = r"
proof -
  from assms obtain rps where rps: "c_regional_performance c = Some rps"
      "r \<in> rp_region ` set rps"
    by (auto simp: has_region_def split: option.splits)
  then have "find (\<lambda>rp. rp_region rp = r) rps \<noteq> None" by (auto simp: find_None_iff)
  then obtain rp where rp: "find (\<lambda>rp. rp_region rp = r) rps = Some rp" by blast
  then have "rp \<in> set rps \<and> rp_region rp = r" by (auto simp: find_Some_iff)
  with rps rp show ?thesis by (simp add: matching_entry_def)
qed

lemma field_names_region_row:
  "field_names (region_row c rp) =
     [''campaign'', ''name'', ''region'', ''country'', ''impressions'', ''clicks'',
      ''conversions'', ''spend'', ''revenue'', ''ctr'', ''conversion_rate'', ''cpc'',
      ''cpa'', ''roas'']"
  by (simp add: region_row_def)

text \<open>
  C1, as the code has it. For a non-empty region held by some campaign, the answer is
  200 with one row per campaign that has the region, in dataset order; campaigns without
  the collection contribute nothing; the row of a campaign is built from its first entry
  of that region, under exact string equality, and has the 14 properties of the object
  literal of the handler (the id is printed as a string; it is taken to be a safe
  integer). An empty or absent region is answered with 400, whatever the data.
\<close>

theorem region_data_rows:
  assumes "region \<noteq> []" and "\<exists>c \<in> set (campaigns data). has_region region c"
    and "\<forall>c \<in> set (campaigns data). has_region region c \<longrightarrow> safe_integer (c_id c)"
  shows "(\<exists>rows. region_data (Some region) (Some data)
                    = Inr \<lparr>status = 200, body = JsonBody (JArr rows)\<rparr>
            \<and> rows = map (\<lambda>c. let rp = the (matching_entry region c) in
                        JObj
                          [(''campaign'', JStr (number_to_string (c_id c))),
                           (''name'', c_name c),
                           (''region'', JStr (rp_region rp)),
                           (''country'', rp_country rp),
                           (''impressions'', rp_impressions rp),
                           (''clicks'', rp_clicks rp),
                           (''conversions'', rp_conversions rp),
                           (''spend'', rp_spend rp),
                           (''revenue'', rp_revenue rp),
                           (''ctr'', rp_ctr rp),
                           (''conversion_rate'', rp_conversion_rate rp),
                           (''cpc'', rp_cpc rp),
                           (''cpa'', rp_cpa rp),
                           (''roas'', rp_roas rp)])
                       (filter (has_region region) (campaigns data))
            \<and> list_all (\<lambda>row. field_names row
                     = [''campaign'', ''name'', ''region'', ''country'', ''impressions'',
                       ''clicks'', ''conversions'', ''spend'', ''revenue'', ''ctr'',
                       ''conversion_rate'', ''cpc'', ''cpa'', ''roas'']
                   \<and> length (field_names row) = 14) rows)
         \<and> (\<forall>c \<in> set (campaigns data). has_region region c \<longrightarrow>
               (\<exists>rps rp. c_regional_performance c = Some rps
                  \<and> matching_entry region c = Some rp \<and> rp \<in> set rps
                  \<and> rp_region rp = region))
         \<and> (\<forall>c \<in> set (campaigns data).
               c_regional_performance c = None \<longrightarrow> \<not> has_region region c)
         \<and> region_data (Some []) file
             = Inr \<lparr>status = 400,
                    body = JsonBody (JObj
                      [(''error'', JStr ''Missing region''),
                       (''message'', JStr ''region query parameter is required'')])\<rparr>
         \<and> region_data None file
             = Inr \<lparr>status = 400,
                    body = JsonBody (JObj
                      [(''error'', JStr ''Missing region''),
                       (''message'', JStr ''region query parameter is required'')])\<rparr>"
proof -
  let ?row = "\<lambda>c. let rp = the (matching_entry region c) in
                        JObj
                          [(''campaign'', JStr (number_to_string (c_id c))),
                           (''name'', c_name c),
                           (''region'', JStr (rp_region rp)),
                           (''country'', rp_country rp),
                           (''impressions'', rp_impressions rp),
                           (''clicks'', rp_clicks rp),
                           (''conversions'', rp_conversions rp),
                           (''spend'', rp_spend rp),
                           (''revenue'', rp_revenue rp),
                           (''ctr'', rp_ctr rp),
                           (''conversion_rate'', rp_conversion_rate rp),
                           (''cpc'', rp_cpc rp),
                           (''cpa'', rp_cpa rp),
                           (''roas'', rp_roas rp)]"
  let ?rows = "map ?row (filter (has_region region) (campaigns data))"
  have row: "?row = (\<lambda>c. region_row c (the (matching_entry region c)))"
    by (simp add: region_row_def Let_def)
  have ne: "filter (has_region region) (campaigns data) \<noteq> []"
    using assms(2) by (auto simp: filter_empty_conv)
  have "region_data (Some region) (Some data)
          = Inr \<lparr>status = 200,
                 body = JsonBody (JArr
                   (map (\<lambda>c. region_row c (the (matching_entry region c)))
                      (filter (has_region region) (campaigns data))))\<rparr>"
    using assms(1) ne by (simp add: region_data_def foldl_region_step)
  then have resp: "region_data (Some region) (Some data)
          = Inr \<lparr>status = 200, body = JsonBody (JArr ?rows)\<rparr>"
    by (simp only: row)
  have names: "list_all (\<lambda>row. field_names row
                     = [''campaign'', ''name'', ''region'', ''country'', ''impressions'',
                       ''clicks'', ''conversions'', ''spend'', ''revenue'', ''ctr'',
                       ''conversion_rate'', ''cpc'', ''cpa'', ''roas'']
                   \<and> length (field_names row) = 14) ?rows"
    by (simp add: list_all_iff Let_def)
  have entries: "\<forall>c \<in> set (campaigns data). has_region region c \<longrightarrow>
               (\<exists>rps rp. c_regional_performance c = Some rps
                  \<and> matching_entry region c = Some rp \<and> rp \<in> set rps
                  \<and> rp_region rp = region)"
    using has_region_entry by blast
  have skipped: "\<forall>c \<in> set (campaigns data).
               c_regional_performance c = None \<longrightarrow> \<not> has_region region c"
    by (simp add: has_region_def)
  have empty: "region_data (Some []) file
             = Inr \<lparr>status = 400,
                    body = JsonBody (JObj
                      [(''error'', JStr ''Missing region''),
                       (''message'', JStr ''region query parameter is required'')])\<rparr>"
    by (simp add: region_data_def error_body_def)
  have absent: "region_data None file
             = Inr \<lparr>status = 400,
                    body = JsonBody (JObj
                      [(''error'', JStr ''Missing region''),
                       (''message'', JStr ''region query parameter is required'')])\<rparr>"
    by (simp add: region_data_def error_body_def)
  from resp names have "\<exists>rows. region_data (Some region) (Some data)
                    = Inr \<lparr>status = 200, body = JsonBody (JArr rows)\<rparr>
            \<and> rows = ?rows
            \<and> list_all (\<lambda>row. field_names row
                     = [''campaign'', ''name'', ''region'', ''country'', ''impressions'',
                       ''clicks'', ''conversions'', ''spend'', ''revenue'', ''ctr'',
                       ''conversion_rate'', ''cpc'', ''cpa'', ''roas'']
                   \<and> length (field_names row) = 14) rows"
    by blast
  with entries skipped empty absent show ?thesis by blast
qed

lemma demo_has_region_Dubai:
  "has_region ''Dubai'' demo_campaign1" "\<not> has_region ''Dubai'' demo_campaign2"
  "has_region ''Dubai'' demo_campaign3"
  by (simp_all add: has_region_def demo_campaign1_def demo_campaign2_def demo_campaign3_def
        demo_rp_def)

lemma demo_matching_entry_Dubai:
  "matching_entry ''Dubai'' demo_campaign1 = Some (demo_rp ''Dubai'')"
  "matching_entry ''Dubai'' demo_campaign3 = Some (demo_rp ''Dubai'')"
  by (simp_all add: matching_entry_def demo_campaign1_def demo_campaign3_def demo_rp_def)

lemma demo_region_rows:
  "region_row demo_campaign1 (demo_rp ''Dubai'')
     = JObj
                   [(''campaign'', JStr ''1''), (''name'', JStr ''Spring''),
                    (''region'', JStr ''Dubai''), (''country'', JStr ''UAE''),
                    (''impressions'', JNum 1000), (''clicks'', JNum 50),
                    (''conversions'', JNum 5), (''spend'', JNum 200), (''revenue'', JNum 900),
                    (''ctr'', JNum 5), (''conversion_rate'', JNum 10), (''cpc'', JNum 4),
                    (''cpa'', JNum 40), (''roas'', JNum 4)]"
  "region_row demo_campaign3 (demo_rp ''Dubai'')
     = JObj
                   [(''campaign'', JStr ''3''), (''name'', JStr ''Autumn''),
                    (''region'', JStr ''Dubai''), (''country'', JStr ''UAE''),
                    (''impressions'', JNum 1000), (''clicks'', JNum 50),
                    (''conversions'', JNum 5), (''spend'', JNum 200), (''revenue'', JNum 900),
                    (''ctr'', JNum 5), (''conversion_rate'', JNum 10), (''cpc'', JNum 4),
                    (''cpa'', JNum 40), (''roas'', JNum 4)]"
proof -
  have s: "number_to_string 1 = ''1''" "number_to_string 3 = ''3''" by code_simp+
  show "region_row demo_campaign1 (demo_rp ''Dubai'')
     = JObj
                   [(''campaign'', JStr ''1''), (''name'', JStr ''Spring''),
                    (''region'', JStr ''Dubai''), (''country'', JStr ''UAE''),
                    (''impressions'', JNum 1000), (''clicks'', JNum 50),
                    (''conversions'', JNum 5), (''spend'', JNum 200), (''revenue'', JNum 900),
                    (''ctr'', JNum 5), (''conversion_rate'', JNum 10), (''cpc'', JNum 4),
                    (''cpa'', JNum 40), (''roas'', JNum 4)]"
    by (simp add: region_row_def demo_campaign1_def demo_rp_def s)
  show "region_row demo_campaign3 (demo_rp ''Dubai'')
     = JObj
                   [(''campaign'', JStr ''3''), (''name'', JStr ''Autumn''),
                    (''region'', JStr ''Dubai''), (''country'', JStr ''UAE''),
                    (''impressions'', JNum 1000), (''clicks'', JNum 50),
                    (''conversions'', JNum 5), (''spend'', JNum 200), (''revenue'', JNum 900),
                    (''ctr'', JNum 5), (''conversion_rate'', JNum 10), (''cpc'', JNum 4),
                    (''cpa'', JNum 40), (''roas'', JNum 4)]"
    by (simp add: region_row_def demo_campaign3_def demo_rp_def s)
qed

theorem region_data_rows_witness:
  "''Dubai'' \<noteq> [] \<and> has_region ''Dubai'' demo_campaign1
   \<and> safe_integer (c_id demo_campaign1) \<and> safe_integer (c_id demo_campaign3)
   \<and> demo_campaign2 \<in> set (campaigns demo_data)
   \<and> c_regional_performance demo_campaign2 = None
   \<and> region_data (Some ''Dubai'') (Some demo_data)
       = Inr \<lparr>status = 200,
              body = JsonBody (JArr
                [JObj
                   [(''campaign'', JStr ''1''), (''name'', JStr ''Spring''),
                    (''region'', JStr ''Dubai''), (''country'', JStr ''UAE''),
                    (''impressions'', JNum 1000), (''clicks'', JNum 50),
                    (''conversions'', JNum 5), (''spend'', JNum 200), (''revenue'', JNum 900),
                    (''ctr'', JNum 5), (''conversion_rate'', JNum 10), (''cpc'', JNum 4),
                    (''cpa'', JNum 40), (''roas'', JNum 4)],
                 JObj
                   [(''campaign'', JStr ''3''), (''name'', JStr ''Autumn''),
                    (''region'', JStr ''Dubai''), (''country'', JStr ''UAE''),
                    (''impressions'', JNum 1000), (''clicks'', JNum 50),
                    (''conversions'', JNum 5), (''spend'', JNum 200), (''revenue'', JNum 900),
                    (''ctr'', JNum 5), (''conversion_rate'', JNum 10), (''cpc'', JNum 4),
                    (''cpa'', JNum 40), (''roas'', JNum 4)]])\<rparr>"
proof -
  have h1: "''Dubai'' \<noteq> []" by simp
  have h2: "\<exists>c \<in> set (campaigns demo_data). has_region ''Dubai'' c"
    using demo_has_region_Dubai(1) by (auto simp: demo_data_def)
  have sf: "safe_integer (c_id demo_campaign1)" "safe_integer (c_id demo_campaign3)"
    by (simp_all add: safe_integer_def demo_campaign1_def demo_campaign3_def)
  have h3: "\<forall>c \<in> set (campaigns demo_data). has_region ''Dubai'' c \<longrightarrow> safe_integer (c_id c)"
    using sf demo_has_region_Dubai(2) by (simp add: demo_data_def)
  have c2: "demo_campaign2 \<in> set (campaigns demo_data)"
    "c_regional_performance demo_campaign2 = None"
    by (simp_all add: demo_data_def demo_campaign2_def)
  have f: "filter (has_region ''Dubai'') (campaigns demo_data)
             = [demo_campaign1, demo_campaign3]"
    by (simp add: demo_data_def demo_has_region_Dubai)
  from region_data_rows [OF h1 h2 h3, THEN conjunct1]
  obtain rows where r: "region_data (Some ''Dubai'') (Some demo_data)
                    = Inr \<lparr>status = 200, body = JsonBody (JArr rows)\<rparr>"
    and rows: "rows = map (\<lambda>c. let rp = the (matching_entry ''Dubai'' c) in
                        JObj
                          [(''campaign'', JStr (number_to_string (c_id c))),
                           (''name'', c_name c),
                           (''region'', JStr (rp_region rp)),
                           (''country'', rp_country rp),
                           (''impressions'', rp_impressions rp),
                           (''clicks'', rp_clicks rp),
                           (''conversions'', rp_conversions rp),
                           (''spend'', rp_spend rp),
                           (''revenue'', rp_revenue rp),
                           (''ctr'', rp_ctr rp),
                           (''conversion_rate'', rp_conversion_rate rp),
                           (''cpc'', rp_cpc rp),
                           (''cpa'', rp_cpa rp),
                           (''roas'', rp_roas rp)])
                       (filter (has_region ''Dubai'') (campaigns demo_data))"
    by blast
  have "rows = [region_row demo_campaign1 (demo_rp ''Dubai''),
                region_row demo_campaign3 (demo_rp ''Dubai'')]"
    unfolding rows f by (simp add: demo_matching_entry_Dubai region_row_def Let_def)
  then have "rows = [JObj
                   [(''campaign'', JStr ''1''), (''name'', JStr ''Spring''),
                    (''region'', JStr ''Dubai''), (''country'', JStr ''UAE''),
                    (''impressions'', JNum 1000), (''clicks'', JNum 50),
                    (''conversions'', JNum 5), (''spend'', JNum 200), (''revenue'', JNum 900),
                    (''ctr'', JNum 5), (''conversion_rate'', JNum 10), (''cpc'', JNum 4),
                    (''cpa'', JNum 40), (''roas'', JNum 4)],
                 JObj
                   [(''campaign'', JStr ''3''), (''name'', JStr ''Autumn''),
                    (''region'', JStr ''Dubai''), (''country'', JStr ''UAE''),
                    (''impressions'', JNum 1000), (''clicks'', JNum 50),
                    (''conversions'', JNum 5), (''spend'', JNum 200), (''revenue'', JNum 900),
                    (''ctr'', JNum 5), (''conversion_rate'', JNum 10), (''cpc'', JNum 4),
                    (''cpa'', JNum 40), (''roas'', JNum 4)]]"
    by (simp only: demo_region_rows)
  with r h1 demo_has_region_Dubai(1) sf c2 show ?thesis by simp
qed

text \<open>
  The claim as stated fails twice: a row has 14 properties, not 13, and the empty string,
  although it is the region of an entry of campaign 1, is answered with 400.
\<close>

theorem region_data_counterexample:
  "region_data (Some ''Dubai'') (Some demo_data)
     = Inr \<lparr>status = 200,
            body = JsonBody (JArr
              [JObj
                   [(''campaign'', JStr ''1''), (''name'', JStr ''Spring''),
                    (''region'', JStr ''Dubai''), (''country'', JStr ''UAE''),
                    (''impressions'', JNum 1000), (''clicks'', JNum 50),
                    (''conversions'', JNum 5), (''spend'', JNum 200), (''revenue'', JNum 900),
                    (''ctr'', JNum 5), (''conversion_rate'', JNum 10), (''cpc'', JNum 4),
                    (''cpa'', JNum 40), (''roas'', JNum 4)],
               JObj
                   [(''campaign'', JStr ''3''), (''name'', JStr ''Autumn''),
                    (''region'', JStr ''Dubai''), (''country'', JStr ''UAE''),
                    (''impressions'', JNum 1000), (''clicks'', JNum 50),
                    (''conversions'', JNum 5), (''spend'', JNum 200), (''revenue'', JNum 900),
                    (''ctr'', JNum 5), (''conversion_rate'', JNum 10), (''cpc'', JNum 4),
                    (''cpa'', JNum 40), (''roas'', JNum 4)]])\<rparr>
   \<and> map (\<lambda>row. length (field_names row))
         [JObj
                   [(''campaign'', JStr ''1''), (''name'', JStr ''Spring''),
                    (''region'', JStr ''Dubai''), (''country'', JStr ''UAE''),
                    (''impressions'', JNum 1000), (''clicks'', JNum 50),
                    (''conversions'', JNum 5), (''spend'', JNum 200), (''revenue'', JNum 900),
                    (''ctr'', JNum 5), (''conversion_rate'', JNum 10), (''cpc'', JNum 4),
                    (''cpa'', JNum 40), (''roas'', JNum 4)],
          JObj
                   [(''campaign'', JStr ''3''), (''name'', JStr ''Autumn''),
                    (''region'', JStr ''Dubai''), (''country'', JStr ''UAE''),
                    (''impressions'', JNum 1000), (''clicks'', JNum 50),
                    (''conversions'', JNum 5), (''spend'', JNum 200), (''revenue'', JNum 900),
                    (''ctr'', JNum 5), (''conversion_rate'', JNum 10), (''cpc'', JNum 4),
                    (''cpa'', JNum 40), (''roas'', JNum 4)]] = [14, 14]
   \<and> has_region [] demo_campaign1
   \<and> region_data (Some []) (Some demo_data)
     = Inr \<lparr>status = 400,
            body = JsonBody (JObj
              [(''error'', JStr ''Missing region''),
               (''message'', JStr ''region query parameter is required'')])\<rparr>"
proof -
  have r1: "region_step ''Dubai'' [] demo_campaign1
              = [region_row demo_campaign1 (demo_rp ''Dubai'')]"
    by (simp add: region_step_def demo_campaign1_def demo_rp_def)
  have r2: "region_step ''Dubai'' xs demo_campaign2 = xs" for xs
    by (simp add: region_step_def demo_campaign2_def)
  have r3: "region_step ''Dubai'' xs demo_campaign3
              = xs @ [region_row demo_campaign3 (demo_rp ''Dubai'')]" for xs
    by (simp add: region_step_def demo_campaign3_def demo_rp_def)
  have "region_data (Some ''Dubai'') (Some demo_data)
     = Inr \<lparr>status = 200,
            body = JsonBody (JArr
              [region_row demo_campaign1 (demo_rp ''Dubai''),
               region_row demo_campaign3 (demo_rp ''Dubai'')])\<rparr>"
    by (simp add: region_data_def demo_data_def r1 r2 r3)
  then have a: "region_data (Some ''Dubai'') (Some demo_data)
     = Inr \<lparr>status = 200,
            body = JsonBody (JArr
              [JObj
                   [(''campaign'', JStr ''1''), (''name'', JStr ''Spring''),
                    (''region'', JStr ''Dubai''), (''country'', JStr ''UAE''),
                    (''impressions'', JNum 1000), (''clicks'', JNum 50),
                    (''conversions'', JNum 5), (''spend'', JNum 200), (''revenue'', JNum 900),
                    (''ctr'', JNum 5), (''conversion_rate'', JNum 10), (''cpc'', JNum 4),
                    (''cpa'', JNum 40), (''roas'', JNum 4)],
               JObj
                   [(''campaign'', JStr ''3''), (''name'', JStr ''Autumn''),
                    (''region'', JStr ''Dubai''), (''country'', JStr ''UAE''),
                    (''impressions'', JNum 1000), (''clicks'', JNum 50),
                    (''conversions'', JNum 5), (''spend'', JNum 200), (''revenue'', JNum 900),
                    (''ctr'', JNum 5), (''conversion_rate'', JNum 10), (''cpc'', JNum 4),
                    (''cpa'', JNum 40), (''roas'', JNum 4)]])\<rparr>"
    by (simp only: demo_region_rows)
  have b: "has_region [] demo_campaign1"
    by (simp add: has_region_def demo_campaign1_def demo_rp_def)
  have c: "region_data (Some []) (Some demo_data)
     = Inr \<lparr>status = 400,
            body = JsonBody (JObj
              [(''error'', JStr ''Missing region''),
               (''message'', JStr ''region query parameter is required'')])\<rparr>"
    by (simp add: region_data_def error_body_def)
  show ?thesis using a b c by simp
qed

section \<open>POST /creative-data: results\<close>

lemma set_parsed_ids:
  "set (parsed_ids ids) = {n. \<exists>id \<in> set ids. parseInt (to_string id) = Some n}"
  by (induction ids) (auto simp: parsed_ids_def split: option.splits)

lemma numeric_ids_member:
  "Some n \<in> set (numeric_ids ids) \<longleftrightarrow> n \<in> set (parsed_ids ids)"
  by (force simp: numeric_ids_def set_parsed_ids image_iff)

lemma numeric_ids_empty:
  "numeric_ids ids = [] \<longleftrightarrow> (\<forall>id \<in> set ids. parseInt (to_string id) = None)"
  by (auto simp: numeric_ids_def filter_empty_conv)

lemma parsed_ids_filter:
  "parsed_ids (filter (\<lambda>id. parseInt (to_string id) \<noteq> None) ids) = parsed_ids ids"
  by (induction ids) (auto simp: parsed_ids_def map_filter_simps split: option.splits)

lemma foldl_creative_step:
  "foldl (creative_step nums c) acc crs =
     acc @ map (creative_row c) (filter (\<lambda>cr. Some (cr_id cr) \<in> set nums) crs)"
  by (induction crs arbitrary: acc) (simp_all add: creative_step_def)

lemma campaign_step_pairs:
  "campaign_step nums acc c =
     acc @ map (\<lambda>(c, cr). creative_row c cr)
             (filter (\<lambda>(c, cr). Some (cr_id cr) \<in> set nums)
                (case c_creatives c of None \<Rightarrow> [] | Some crs \<Rightarrow> map (Pair c) crs))"
  by (cases "c_creatives c")
     (simp_all add: campaign_step_def foldl_creative_step filter_map comp_def)

lemma foldl_campaign_step:
  "foldl (campaign_step nums) acc cs =
     acc @ map (\<lambda>(c, cr). creative_row c cr)
             (filter (\<lambda>(c, cr). Some (cr_id cr) \<in> set nums)
                (concat (map (\<lambda>c. case c_creatives c of None \<Rightarrow> []
                                   | Some crs \<Rightarrow> map (Pair c) crs) cs)))"
proof (induction cs arbitrary: acc)
  case Nil
  then show ?case by simp
next
  case (Cons c cs)
  have "foldl (campaign_step nums) acc (c # cs) =
          campaign_step nums acc c @ map (\<lambda>(c, cr). creative_row c cr)
             (filter (\<lambda>(c, cr). Some (cr_id cr) \<in> set nums)
                (concat (map (\<lambda>c. case c_creatives c of None \<Rightarrow> []
                                   | Some crs \<Rightarrow> map (Pair c) crs) cs)))"
    by (simp only: foldl_Cons Cons.IH)
  also have "campaign_step nums acc c =
     acc @ map (\<lambda>(c, cr). creative_row c cr)
             (filter (\<lambda>(c, cr). Some (cr_id cr) \<in> set nums)
                (case c_creatives c of None \<Rightarrow> [] | Some crs \<Rightarrow> map (Pair c) crs))"
    by (rule campaign_step_pairs)
  finally show ?case by simp
qed

lemma foldl_campaign_step_matched:
  "foldl (campaign_step (numeric_ids ids)) [] (campaigns data) =
     map (\<lambda>(c, cr). creative_row c cr) (matched_pairs ids data)"
  by (simp add: foldl_campaign_step matched_pairs_def creative_pairs_def numeric_ids_member)

lemma length_filter_ids:
  "length (filter (\<lambda>(c, cr). cr_id cr \<in> S) ps)
     = length (filter (\<lambda>i. i \<in> S) (map (\<lambda>(c, cr). cr_id cr) ps))"
  by (induction ps) auto

lemma length_matched_pairs:
  assumes "distinct (creative_ids data)"
  shows "length (matched_pairs ids data) = card (set (parsed_ids ids) \<inter> set (creative_ids data))"
proof -
  let ?S = "set (parsed_ids ids)"
  have "length (matched_pairs ids data)
          = length (filter (\<lambda>i. i \<in> ?S) (creative_ids data))"
    unfolding matched_pairs_def creative_ids_def by (rule length_filter_ids)
  also have "\<dots> = card (set (filter (\<lambda>i. i \<in> ?S) (creative_ids data)))"
  proof -
    have "distinct (filter (\<lambda>i. i \<in> ?S) (creative_ids data))" using assms by simp
    then show ?thesis by (rule distinct_card [symmetric])
  qed
  also have "set (filter (\<lambda>i. i \<in> ?S) (creative_ids data)) = ?S \<inter> set (creative_ids data)"
    by auto
  finally show ?thesis .
qed

lemma creative_data_response:
  assumes "ids \<noteq> []" and "\<not> list_ex to_string_throws ids"
    and "\<exists>id \<in> set ids. parseInt (to_string id) \<noteq> None"
  shows "creative_data (Some (JArr ids)) (Some data) =
           (if matched_pairs ids data = [] then
              Inr \<lparr>status = 404,
                   body = error_body ''No creatives found''
                            (''No creatives found for the provided IDs: ''
                               @ array_join '', '' ids)\<rparr>
            else
              Inr \<lparr>status = 200,
                   body = JsonBody (JObj
                     [(''message'', JStr ''Creative performance data retrieved successfully''),
                      (''requested_ids'', JArr ids),
                      (''found_creatives'', JNum (int (length (matched_pairs ids data)))),
                      (''data'',
                         JArr (map (\<lambda>(c, cr). creative_row c cr) (matched_pairs ids data)))])\<rparr>)"
proof -
  have n: "numeric_ids ids \<noteq> []" using assms(3) by (simp add: numeric_ids_empty)
  show ?thesis
    unfolding creative_data_def using assms(1,2) n
    by (simp add: foldl_campaign_step_matched Let_def)
qed

text \<open>
  C3, as the code has it. An entry counts as a number when \<^verbatim>\<open>parseInt\<close> reads an
  integer from its string form, as it does from \<^verbatim>\<open>102abc\<close> and from \<^verbatim>\<open>201.9\<close>. For a
  non-empty list whose entries can all be converted to strings, with safe integers in
  the entries and safe integers read from them: when no entry is a number the answer is
  400; otherwise it is 404 when no creative of the dataset has one of the integers read as
  its id, and else 200 with \<^verbatim>\<open>found_creatives\<close> the number of such creatives and one
  row for each, in dataset order. When creative ids are unique in the dataset, that number
  is the number of distinct integers read that are ids of creatives. Removing the entries
  from which no integer is read changes neither the integers read nor the creatives found.
\<close>

theorem creative_data_found:
  assumes "ids \<noteq> []" and "\<not> list_ex to_string_throws ids"
    and "list_all exact ids" and "list_all safe_integer (parsed_ids ids)"
  shows "((\<forall>id \<in> set ids. parseInt (to_string id) = None) \<longrightarrow>
            creative_data (Some (JArr ids)) dataFile
              = Inr \<lparr>status = 400,
                     body = JsonBody (JObj
                       [(''error'', JStr ''Invalid creative IDs''),
                        (''message'', JStr ''All creative IDs must be valid numbers'')])\<rparr>)
         \<and> ((\<exists>id \<in> set ids. parseInt (to_string id) \<noteq> None) \<longrightarrow>
            creative_data (Some (JArr ids)) (Some data) =
              (if matched_pairs ids data = [] then
                 Inr \<lparr>status = 404,
                      body = JsonBody (JObj
                        [(''error'', JStr ''No creatives found''),
                         (''message'',
                            JStr (''No creatives found for the provided IDs: ''
                                    @ array_join '', '' ids))])\<rparr>
               else
                 Inr \<lparr>status = 200,
                      body = JsonBody (JObj
                        [(''message'',
                            JStr ''Creative performance data retrieved successfully''),
                         (''requested_ids'', JArr ids),
                         (''found_creatives'', JNum (int (length (matched_pairs ids data)))),
                         (''data'',
                            JArr (map (\<lambda>(c, cr). creative_row c cr)
                                    (matched_pairs ids data)))])\<rparr>))
         \<and> (distinct (creative_ids data) \<longrightarrow>
            length (matched_pairs ids data)
              = card (set (parsed_ids ids) \<inter> set (creative_ids data)))
         \<and> parsed_ids (filter (\<lambda>id. parseInt (to_string id) \<noteq> None) ids) = parsed_ids ids
         \<and> matched_pairs (filter (\<lambda>id. parseInt (to_string id) \<noteq> None) ids) data
             = matched_pairs ids data"
proof (intro conjI impI)
  assume "\<forall>id \<in> set ids. parseInt (to_string id) = None"
  then have "numeric_ids ids = []" by (simp add: numeric_ids_empty)
  then show "creative_data (Some (JArr ids)) dataFile
              = Inr \<lparr>status = 400,
                     body = JsonBody (JObj
                       [(''error'', JStr ''Invalid creative IDs''),
                        (''message'', JStr ''All creative IDs must be valid numbers'')])\<rparr>"
    unfolding creative_data_def error_body_def using assms(1,2) by simp
next
  assume "\<exists>id \<in> set ids. parseInt (to_string id) \<noteq> None"
  then show "creative_data (Some (JArr ids)) (Some data) =
              (if matched_pairs ids data = [] then
                 Inr \<lparr>status = 404,
                      body = JsonBody (JObj
                        [(''error'', JStr ''No creatives found''),
                         (''message'',
                            JStr (''No creatives found for the provided IDs: ''
                                    @ array_join '', '' ids))])\<rparr>
               else
                 Inr \<lparr>status = 200,
                      body = JsonBody (JObj
                        [(''message'',
                            JStr ''Creative performance data retrieved successfully''),
                         (''requested_ids'', JArr ids),
                         (''found_creatives'', JNum (int (length (matched_pairs ids data)))),
                         (''data'',
                            JArr (map (\<lambda>(c, cr). creative_row c cr)
                                    (matched_pairs ids data)))])\<rparr>)"
    using creative_data_response [OF assms(1,2)] by (simp add: error_body_def)
next
  assume "distinct (creative_ids data)"
  then show "length (matched_pairs ids data)
              = card (set (parsed_ids ids) \<inter> set (creative_ids data))"
    by (rule length_matched_pairs)
next
  show "parsed_ids (filter (\<lambda>id. parseInt (to_string id) \<noteq> None) ids) = parsed_ids ids"
    by (rule parsed_ids_filter)
next
  show "matched_pairs (filter (\<lambda>id. parseInt (to_string id) \<noteq> None) ids) data
          = matched_pairs ids data"
    by (simp only: matched_pairs_def parsed_ids_filter)
qed

lemma demo_parse:
  "parseInt (number_to_string n) = Some n"
  "parseInt ''102abc'' = Some 102"
  "parseInt ''201.9'' = Some 201"
  "parseInt ''abc'' = None"
  "parseInt ''null'' = None"
  by (rule parseInt_number_to_string) code_simp+

lemma demo_creative_pairs:
  "creative_pairs demo_data =
     [(demo_campaign1, demo_creative 101 None),
      (demo_campaign1, demo_creative 102 (Some (JStr ''A''))),
      (demo_campaign3, demo_creative 201 (Some (JNum 0)))]"
proof -
  have "c_creatives demo_campaign1
          = Some [demo_creative 101 None, demo_creative 102 (Some (JStr ''A''))]"
    by (simp add: demo_campaign1_def)
  moreover have "c_creatives demo_campaign2 = None" by (simp add: demo_campaign2_def)
  moreover have "c_creatives demo_campaign3 = Some [demo_creative 201 (Some (JNum 0))]"
    by (simp add: demo_campaign3_def)
  ultimately show ?thesis by (simp add: creative_pairs_def demo_data_def)
qed

lemma demo_cr_id: "cr_id (demo_creative i v) = i"
  by (simp add: demo_creative_def)

lemma demo_matched:
  "matched_pairs [JNum 101, JStr ''102abc'', JFloat ''201.9'', JNum 999] demo_data =
     [(demo_campaign1, demo_creative 101 None),
      (demo_campaign1, demo_creative 102 (Some (JStr ''A''))),
      (demo_campaign3, demo_creative 201 (Some (JNum 0)))]"
  "matched_pairs [JNum 101, JStr ''102abc'', JNum 999] demo_data =
     [(demo_campaign1, demo_creative 101 None),
      (demo_campaign1, demo_creative 102 (Some (JStr ''A'')))]"
  "matched_pairs [JStr ''102abc''] demo_data =
     [(demo_campaign1, demo_creative 102 (Some (JStr ''A'')))]"
  "matched_pairs [JNum 101, JNum 101] demo_data =
     [(demo_campaign1, demo_creative 101 None)]"
  by (simp_all add: matched_pairs_def demo_creative_pairs parsed_ids_def demo_parse demo_cr_id)

theorem creative_data_found_witness:
  "[JNum 101, JStr ''102abc'', JFloat ''201.9'', JNum 999] \<noteq> []
   \<and> \<not> list_ex to_string_throws [JNum 101, JStr ''102abc'', JFloat ''201.9'', JNum 999]
   \<and> list_all exact [JNum 101, JStr ''102abc'', JFloat ''201.9'', JNum 999]
   \<and> parsed_ids [JNum 101, JStr ''102abc'', JFloat ''201.9'', JNum 999] = [101, 102, 201, 999]
   \<and> list_all safe_integer [101, 102, 201, 999]
   \<and> distinct (creative_ids demo_data)
   \<and> creative_data (Some (JArr [JNum 101, JStr ''102abc'', JFloat ''201.9'', JNum 999])) (Some demo_data)
       = Inr \<lparr>status = 200,
              body = JsonBody (JObj
                [(''message'', JStr ''Creative performance data retrieved successfully''),
                 (''requested_ids'', JArr [JNum 101, JStr ''102abc'', JFloat ''201.9'', JNum 999]),
                 (''found_creatives'', JNum 3),
                 (''data'',
                    JArr [creative_row demo_campaign1 (demo_creative 101 None),
                   creative_row demo_campaign1 (demo_creative 102 (Some (JStr ''A''))),
                   creative_row demo_campaign3 (demo_creative 201 (Some (JNum 0)))])])\<rparr>
   \<and> card (set (parsed_ids [JNum 101, JStr ''102abc'', JFloat ''201.9'', JNum 999])
             \<inter> set (creative_ids demo_data)) = 3
   \<and> [JStr ''abc'', JNull] \<noteq> []
   \<and> \<not> list_ex to_string_throws [JStr ''abc'', JNull]
   \<and> list_all exact [JStr ''abc'', JNull]
   \<and> parsed_ids [JStr ''abc'', JNull] = []
   \<and> creative_data (Some (JArr [JStr ''abc'', JNull])) None
       = Inr \<lparr>status = 400,
                     body = JsonBody (JObj
                       [(''error'', JStr ''Invalid creative IDs''),
                        (''message'', JStr ''All creative IDs must be valid numbers'')])\<rparr>"
proof -
  let ?a = "[JNum 101, JStr ''102abc'', JFloat ''201.9'', JNum 999]"
  let ?b = "[JStr ''abc'', JNull]"
  have a1: "?a \<noteq> []" by simp
  have a2: "\<not> list_ex to_string_throws ?a" by simp
  have a3: "list_all exact ?a" by (simp add: safe_integer_def)
  have pa: "parsed_ids ?a = [101, 102, 201, 999]" by (simp add: parsed_ids_def demo_parse)
  have sa: "list_all safe_integer [101, 102, 201, 999]" by (simp add: safe_integer_def)
  have a4: "list_all safe_integer (parsed_ids ?a)" using sa by (simp only: pa)
  have a5: "\<exists>id \<in> set ?a. parseInt (to_string id) \<noteq> None" by (simp add: demo_parse)
  have a6: "distinct (creative_ids demo_data)"
    by (simp add: creative_ids_def demo_creative_pairs demo_cr_id)
  have b1: "?b \<noteq> []" by simp
  have b2: "\<not> list_ex to_string_throws ?b" by simp
  have b3: "list_all exact ?b" by simp
  have pb: "parsed_ids ?b = []" by (simp add: parsed_ids_def demo_parse)
  have b4: "list_all safe_integer (parsed_ids ?b)" by (simp only: pb) simp
  have b5: "\<forall>id \<in> set ?b. parseInt (to_string id) = None" by (simp add: demo_parse)
  note found = creative_data_found [OF a1 a2 a3 a4, where dataFile = None and data = demo_data]
  have ra: "creative_data (Some (JArr ?a)) (Some demo_data)
       = Inr \<lparr>status = 200,
              body = JsonBody (JObj
                [(''message'', JStr ''Creative performance data retrieved successfully''),
                 (''requested_ids'', JArr [JNum 101, JStr ''102abc'', JFloat ''201.9'', JNum 999]),
                 (''found_creatives'', JNum 3),
                 (''data'',
                    JArr [creative_row demo_campaign1 (demo_creative 101 None),
                   creative_row demo_campaign1 (demo_creative 102 (Some (JStr ''A''))),
                   creative_row demo_campaign3 (demo_creative 201 (Some (JNum 0)))])])\<rparr>"
    using found [THEN conjunct2, THEN conjunct1, THEN mp, OF a5]
    by (simp add: demo_matched)
  have ca: "card (set (parsed_ids ?a) \<inter> set (creative_ids demo_data)) = 3"
    using found [THEN conjunct2, THEN conjunct2, THEN conjunct1, THEN mp, OF a6]
    by (simp only: demo_matched) simp
  have rb: "creative_data (Some (JArr ?b)) None
       = Inr \<lparr>status = 400,
                     body = JsonBody (JObj
                       [(''error'', JStr ''Invalid creative IDs''),
                        (''message'', JStr ''All creative IDs must be valid numbers'')])\<rparr>"
    using creative_data_found [OF b1 b2 b3 b4, where dataFile = None and data = demo_data,
        THEN conjunct1, THEN mp, OF b5] .
  from a1 a2 a3 pa sa a6 ra ca b1 b2 b3 pb rb show ?thesis by blast
qed

text \<open>
  The claim as stated fails on entries that are not numbers but start with one. In a
  list of one valid id, the entry \<^verbatim>\<open>102abc\<close> and one id of no creative, the entry is
  not dropped: it finds creative 102, and \<^verbatim>\<open>found_creatives\<close> is 2, not 1. A list
  whose only entry is \<^verbatim>\<open>102abc\<close> is answered with 200, not 400. And the count is of
  creatives found, not of entries that resolve: the id 101 requested twice is counted once.
\<close>

theorem creative_data_counterexample:
  "creative_data (Some (JArr [JNum 101, JStr ''102abc'', JNum 999])) (Some demo_data)
     = Inr \<lparr>status = 200,
              body = JsonBody (JObj
                [(''message'', JStr ''Creative performance data retrieved successfully''),
                 (''requested_ids'', JArr [JNum 101, JStr ''102abc'', JNum 999]),
                 (''found_creatives'', JNum 2),
                 (''data'',
                    JArr [creative_row demo_campaign1 (demo_creative 101 None),
                   creative_row demo_campaign1 (demo_creative 102 (Some (JStr ''A'')))])])\<rparr>
   \<and> creative_data (Some (JArr [JStr ''102abc''])) (Some demo_data)
     = Inr \<lparr>status = 200,
              body = JsonBody (JObj
                [(''message'', JStr ''Creative performance data retrieved successfully''),
                 (''requested_ids'', JArr [JStr ''102abc'']),
                 (''found_creatives'', JNum 1),
                 (''data'',
                    JArr [creative_row demo_campaign1 (demo_creative 102 (Some (JStr ''A'')))])])\<rparr>
   \<and> creative_data (Some (JArr [JNum 101, JNum 101])) (Some demo_data)
     = Inr \<lparr>status = 200,
              body = JsonBody (JObj
                [(''message'', JStr ''Creative performance data retrieved successfully''),
                 (''requested_ids'', JArr [JNum 101, JNum 101]),
                 (''found_creatives'', JNum 1),
                 (''data'',
                    JArr [creative_row demo_campaign1 (demo_creative 101 None)])])\<rparr>"
proof -
  have a: "creative_data (Some (JArr [JNum 101, JStr ''102abc'', JNum 999])) (Some demo_data)
     = Inr \<lparr>status = 200,
              body = JsonBody (JObj
                [(''message'', JStr ''Creative performance data retrieved successfully''),
                 (''requested_ids'', JArr [JNum 101, JStr ''102abc'', JNum 999]),
                 (''found_creatives'', JNum 2),
                 (''data'',
                    JArr [creative_row demo_campaign1 (demo_creative 101 None),
                   creative_row demo_campaign1 (demo_creative 102 (Some (JStr ''A'')))])])\<rparr>"
    by (subst creative_data_response) (simp_all add: demo_parse demo_matched)
  have b: "creative_data (Some (JArr [JStr ''102abc''])) (Some demo_data)
     = Inr \<lparr>status = 200,
              body = JsonBody (JObj
                [(''message'', JStr ''Creative performance data retrieved successfully''),
                 (''requested_ids'', JArr [JStr ''102abc'']),
                 (''found_creatives'', JNum 1),
                 (''data'',
                    JArr [creative_row demo_campaign1 (demo_creative 102 (Some (JStr ''A'')))])])\<rparr>"
    by (subst creative_data_response) (simp_all add: demo_parse demo_matched)
  have c: "creative_data (Some (JArr [JNum 101, JNum 101])) (Some demo_data)
     = Inr \<lparr>status = 200,
              body = JsonBody (JObj
                [(''message'', JStr ''Creative performance data retrieved successfully''),
                 (''requested_ids'', JArr [JNum 101, JNum 101]),
                 (''found_creatives'', JNum 1),
                 (''data'',
                    JArr [creative_row demo_campaign1 (demo_creative 101 None)])])\<rparr>"
    by (subst creative_data_response) (simp_all add: demo_parse demo_matched)
  from a b c show ?thesis by blast
qed





section \<open>The protected routes: results\<close>

text \<open>
  C2. In both routes, once the user is found and the password check has passed (equal
  strings in the plain route, equal decoded strings in the other), the answer depends on
  the role alone: \<^verbatim>\<open>admin\<close> gets 200 with the message, the user summary (id, username,
  email and role of the stored user) and the whole marketing document; \<^verbatim>\<open>user\<close> gets
  403 with the explanation and the user summary and nothing else; any other role gets
  403 with the generic message and nothing else.
\<close>

theorem role_decision:
  assumes "username \<noteq> []" and "password \<noteq> []"
    and "find (\<lambda>u. u_username u = username) (users usersData) = Some user"
  shows "(u_password user = password \<longrightarrow>
            simple_protected_data (Some username) (Some password) (Some usersData)
                (Some marketingData) =
              (if u_role user = ''admin'' then
                 \<lparr>status = 200,
                  body = GrantedBody ''Access granted - Admin user authenticated''
                           (JObj
                              [(''id'', u_id user),
                               (''username'', JStr (u_username user)),
                               (''email'', u_email user),
                               (''role'', JStr (u_role user))])
                           marketingData\<rparr>
               else if u_role user = ''user'' then
                 \<lparr>status = 403,
                  body = JsonBody (JObj
                    [(''error'', JStr ''Access denied''),
                     (''message'', JStr ''User must be an admin to access this data.''),
                     (''user'',
                        JObj
                           [(''id'', u_id user),
                            (''username'', JStr (u_username user)),
                            (''email'', u_email user),
                            (''role'', JStr (u_role user))])])\<rparr>
               else
                 \<lparr>status = 403,
                  body = JsonBody (JObj
                    [(''error'', JStr ''Access denied''),
                     (''message'', JStr ''User not found'')])\<rparr>))
         \<and> (simpleDecrypt (u_password user) = simpleDecrypt password \<longrightarrow>
            encrypted_protected_data simpleDecrypt (Some username) (Some password)
                (Some usersData) (Some marketingData) =
              (if u_role user = ''admin'' then
                 \<lparr>status = 200,
                  body = GrantedBody ''Access granted - Admin user authenticated''
                           (JObj
                              [(''id'', u_id user),
                               (''username'', JStr (u_username user)),
                               (''email'', u_email user),
                               (''role'', JStr (u_role user))])
                           marketingData\<rparr>
               else if u_role user = ''user'' then
                 \<lparr>status = 403,
                  body = JsonBody (JObj
                    [(''error'', JStr ''Access denied''),
                     (''message'', JStr ''User must be an admin to access this data.''),
                     (''user'',
                        JObj
                           [(''id'', u_id user),
                            (''username'', JStr (u_username user)),
                            (''email'', u_email user),
                            (''role'', JStr (u_role user))])])\<rparr>
               else
                 \<lparr>status = 403,
                  body = JsonBody (JObj
                    [(''error'', JStr ''Access denied''),
                     (''message'', JStr ''User not found'')])\<rparr>))"
  using assms
  by (simp add: simple_protected_data_def encrypted_protected_data_def access_denied_user_def
        error_body_def user_summary_def)

lemma demo_find_users:
  "find (\<lambda>u. u_username u = ''ahmed_hassan'') (users demo_users) = Some demo_admin"
  "find (\<lambda>u. u_username u = ''omar_mahmoud'') (users demo_users) = Some demo_user"
  "find (\<lambda>u. u_username u = ''sara_ali'') (users demo_users) = Some demo_guest"
  "find (\<lambda>u. u_username u = ''unknown_user'') (users demo_users) = None"
  by (simp_all add: demo_users_def demo_admin_def demo_user_def demo_guest_def)

lemma demo_find_encrypted_users:
  "find (\<lambda>u. u_username u = ''ahmed_hassan'') (users demo_encrypted_users)
     = Some (demo_admin\<lparr>u_password := ''hotlkhktpu123''\<rparr>)"
  "find (\<lambda>u. u_username u = ''omar_mahmoud'') (users demo_encrypted_users)
     = Some (demo_user\<lparr>u_password := ''vthy789whzz''\<rparr>)"
  "find (\<lambda>u. u_username u = ''sara_ali'') (users demo_encrypted_users)
     = Some (demo_guest\<lparr>u_password := ''zhyh456''\<rparr>)"
  "find (\<lambda>u. u_username u = ''unknown_user'') (users demo_encrypted_users) = None"
  by (simp_all add: demo_encrypted_users_def demo_admin_def demo_user_def demo_guest_def)

lemma demo_decrypt_values:
  "demo_decrypt ''hotlkhktpu123'' = ''ahmedadmin123''"
  "demo_decrypt ''vthy789whzz'' = ''omar789pass''"
  "demo_decrypt ''ahmedadmin123'' = ''tafxwtwfbg123''"
  by code_simp+

theorem role_decision_witness:
  "simple_protected_data (Some ''ahmed_hassan'') (Some ''ahmedadmin123'') (Some demo_users)
       (Some demo_data)
     = \<lparr>status = 200,
        body = GrantedBody ''Access granted - Admin user authenticated''
                 (JObj
                    [(''id'', JNum 1), (''username'', JStr ''ahmed_hassan''),
                     (''email'', JStr ''ahmed@example.com''), (''role'', JStr ''admin'')])
                 demo_data\<rparr>
   \<and> simple_protected_data (Some ''omar_mahmoud'') (Some ''omar789pass'') (Some demo_users)
       (Some demo_data)
     = \<lparr>status = 403,
        body = JsonBody (JObj
          [(''error'', JStr ''Access denied''),
           (''message'', JStr ''User must be an admin to access this data.''),
           (''user'',
              JObj
                [(''id'', JNum 2), (''username'', JStr ''omar_mahmoud''),
                 (''email'', JStr ''omar@example.com''), (''role'', JStr ''user'')])])\<rparr>
   \<and> simple_protected_data (Some ''sara_ali'') (Some ''sara456'') (Some demo_users)
       (Some demo_data)
     = \<lparr>status = 403,
        body = JsonBody (JObj
          [(''error'', JStr ''Access denied''), (''message'', JStr ''User not found'')])\<rparr>
   \<and> encrypted_protected_data demo_decrypt (Some ''ahmed_hassan'') (Some ''hotlkhktpu123'')
       (Some demo_encrypted_users) (Some demo_data)
     = \<lparr>status = 200,
        body = GrantedBody ''Access granted - Admin user authenticated''
                 (JObj
                    [(''id'', JNum 1), (''username'', JStr ''ahmed_hassan''),
                     (''email'', JStr ''ahmed@example.com''), (''role'', JStr ''admin'')])
                 demo_data\<rparr>
   \<and> encrypted_protected_data demo_decrypt (Some ''omar_mahmoud'') (Some ''vthy789whzz'')
       (Some demo_encrypted_users) (Some demo_data)
     = \<lparr>status = 403,
        body = JsonBody (JObj
          [(''error'', JStr ''Access denied''),
           (''message'', JStr ''User must be an admin to access this data.''),
           (''user'',
              JObj
                [(''id'', JNum 2), (''username'', JStr ''omar_mahmoud''),
                 (''email'', JStr ''omar@example.com''), (''role'', JStr ''user'')])])\<rparr>"
proof -
  have ne: "''ahmed_hassan'' \<noteq> []" "''ahmedadmin123'' \<noteq> []" "''omar_mahmoud'' \<noteq> []"
    "''omar789pass'' \<noteq> []" "''sara_ali'' \<noteq> []" "''sara456'' \<noteq> []" "''vthy789whzz'' \<noteq> []"
    "''hotlkhktpu123'' \<noteq> []"
    by simp_all
  have a: "u_password demo_admin = ''ahmedadmin123''" by (simp add: demo_admin_def)
  have u: "u_password demo_user = ''omar789pass''" by (simp add: demo_user_def)
  have g: "u_password demo_guest = ''sara456''" by (simp add: demo_guest_def)
  have ea: "demo_decrypt (u_password (demo_admin\<lparr>u_password := ''hotlkhktpu123''\<rparr>))
             = demo_decrypt ''hotlkhktpu123''"
    by simp
  have eu: "demo_decrypt (u_password (demo_user\<lparr>u_password := ''vthy789whzz''\<rparr>))
             = demo_decrypt ''vthy789whzz''"
    by simp
  note r1 = role_decision [OF ne(1) ne(2) demo_find_users(1),
      where marketingData = demo_data and simpleDecrypt = demo_decrypt,
      THEN conjunct1, THEN mp, OF a]
  note r2 = role_decision [OF ne(3) ne(4) demo_find_users(2),
      where marketingData = demo_data and simpleDecrypt = demo_decrypt,
      THEN conjunct1, THEN mp, OF u]
  note r3 = role_decision [OF ne(5) ne(6) demo_find_users(3),
      where marketingData = demo_data and simpleDecrypt = demo_decrypt,
      THEN conjunct1, THEN mp, OF g]
  note r4 = role_decision [OF ne(1) ne(8) demo_find_encrypted_users(1),
      where marketingData = demo_data and simpleDecrypt = demo_decrypt,
      THEN conjunct2, THEN mp, OF ea]
  note r5 = role_decision [OF ne(3) ne(7) demo_find_encrypted_users(2),
      where marketingData = demo_data and simpleDecrypt = demo_decrypt,
      THEN conjunct2, THEN mp, OF eu]
  show ?thesis using r1 r2 r3 r4 r5
    by (simp add: demo_admin_def demo_user_def demo_guest_def)
qed

text \<open>
  C6. In both routes an unknown username is answered with 404 and a wrong password for
  a known username with 401; the message of both bodies is the string \<^verbatim>\<open>User not found\<close>,
  and the error of the second is \<^verbatim>\<open>Invalid credentials\<close>.
\<close>

theorem credential_failures:
  assumes "username \<noteq> []" and "password \<noteq> []"
  shows "(find (\<lambda>u. u_username u = username) (users usersData) = None \<longrightarrow>
            simple_protected_data (Some username) (Some password) (Some usersData) mfile
              = \<lparr>status = 404,
                 body = JsonBody (JObj
                   [(''error'', JStr ''User not found''),
                    (''message'', JStr ''User not found'')])\<rparr>
            \<and> encrypted_protected_data simpleDecrypt (Some username) (Some password)
                (Some usersData) mfile
              = \<lparr>status = 404,
                 body = JsonBody (JObj
                   [(''error'', JStr ''User not found''),
                    (''message'', JStr ''User not found'')])\<rparr>)
         \<and> (find (\<lambda>u. u_username u = username) (users usersData) = Some user
              \<and> u_password user \<noteq> password \<longrightarrow>
            simple_protected_data (Some username) (Some password) (Some usersData) mfile
              = \<lparr>status = 401,
                 body = JsonBody (JObj
                   [(''error'', JStr ''Invalid credentials''),
                    (''message'', JStr ''User not found'')])\<rparr>)
         \<and> (find (\<lambda>u. u_username u = username) (users usersData) = Some user
              \<and> simpleDecrypt (u_password user) \<noteq> simpleDecrypt password \<longrightarrow>
            encrypted_protected_data simpleDecrypt (Some username) (Some password)
                (Some usersData) mfile
              = \<lparr>status = 401,
                 body = JsonBody (JObj
                   [(''error'', JStr ''Invalid credentials''),
                    (''message'', JStr ''User not found'')])\<rparr>)"
  using assms
  by (simp add: simple_protected_data_def encrypted_protected_data_def error_body_def)

theorem credential_failures_witness:
  "simple_protected_data (Some ''unknown_user'') (Some ''wrongpass123'') (Some demo_users)
       (Some demo_data)
     = \<lparr>status = 404,
        body = JsonBody (JObj
          [(''error'', JStr ''User not found''), (''message'', JStr ''User not found'')])\<rparr>
   \<and> encrypted_protected_data demo_decrypt (Some ''unknown_user'') (Some ''wrongpass123'')
       (Some demo_users) (Some demo_data)
     = \<lparr>status = 404,
        body = JsonBody (JObj
          [(''error'', JStr ''User not found''), (''message'', JStr ''User not found'')])\<rparr>
   \<and> simple_protected_data (Some ''ahmed_hassan'') (Some ''wrongpass123'') (Some demo_users)
       (Some demo_data)
     = \<lparr>status = 401,
        body = JsonBody (JObj
          [(''error'', JStr ''Invalid credentials''),
           (''message'', JStr ''User not found'')])\<rparr>
   \<and> encrypted_protected_data demo_decrypt (Some ''ahmed_hassan'') (Some ''ahmedadmin123'')
       (Some demo_encrypted_users) (Some demo_data)
     = \<lparr>status = 401,
        body = JsonBody (JObj
          [(''error'', JStr ''Invalid credentials''),
           (''message'', JStr ''User not found'')])\<rparr>"
proof -
  have ne: "''unknown_user'' \<noteq> []" "''wrongpass123'' \<noteq> []" "''ahmed_hassan'' \<noteq> []"
    "''ahmedadmin123'' \<noteq> []"
    by simp_all
  have w: "u_password demo_admin \<noteq> ''wrongpass123''" by (simp add: demo_admin_def)
  have d: "demo_decrypt (u_password (demo_admin\<lparr>u_password := ''hotlkhktpu123''\<rparr>))
             \<noteq> demo_decrypt ''ahmedadmin123''"
    by (simp add: demo_decrypt_values)
  note r1 = credential_failures [OF ne(1) ne(2), where usersData = demo_users
      and mfile = "Some demo_data" and simpleDecrypt = demo_decrypt,
      THEN conjunct1, THEN mp, OF demo_find_users(4)]
  note r2 = credential_failures [OF ne(3) ne(2), where usersData = demo_users
      and mfile = "Some demo_data" and simpleDecrypt = demo_decrypt and user = demo_admin, THEN conjunct2, THEN conjunct1, THEN mp, OF conjI [OF demo_find_users(1) w]]
  note r3 = credential_failures [OF ne(3) ne(4),
      where usersData = demo_encrypted_users and mfile = "Some demo_data"
      and simpleDecrypt = demo_decrypt
      and user = "demo_admin\<lparr>u_password := ''hotlkhktpu123''\<rparr>",
      THEN conjunct2, THEN conjunct2, THEN mp, OF conjI [OF demo_find_encrypted_users(1) d]]
  show ?thesis using r1 r2 r3 by simp
qed

text \<open>
  C7. In the encrypted route, for a user that is found, the supplied password and the
  stored one are both passed through \<^verbatim>\<open>simpleDecrypt\<close> and the results compared as
  strings: the answer is the 401 exactly when they differ, and otherwise it is one of the
  answers of the role decision (200, 403, or 500 when the marketing file cannot be read).
\<close>

theorem encrypted_password_check:
  assumes "username \<noteq> []" and "password \<noteq> []"
    and "find (\<lambda>u. u_username u = username) (users encryptedUsersData) = Some user"
  shows "(status (encrypted_protected_data simpleDecrypt (Some username) (Some password)
                    (Some encryptedUsersData) mfile) = 401
            \<longleftrightarrow> simpleDecrypt (u_password user) \<noteq> simpleDecrypt password)
         \<and> (simpleDecrypt (u_password user) \<noteq> simpleDecrypt password \<longrightarrow>
              encrypted_protected_data simpleDecrypt (Some username) (Some password)
                  (Some encryptedUsersData) mfile
                = \<lparr>status = 401,
                   body = error_body ''Invalid credentials'' ''User not found''\<rparr>)
         \<and> (simpleDecrypt (u_password user) = simpleDecrypt password \<longrightarrow>
              encrypted_protected_data simpleDecrypt (Some username) (Some password)
                  (Some encryptedUsersData) mfile
                = (if u_role user = ''admin'' then
                     (case mfile of
                        None \<Rightarrow> internal_error
                      | Some marketingData \<Rightarrow>
                          \<lparr>status = 200,
                           body = GrantedBody ''Access granted - Admin user authenticated''
                                    (user_summary user) marketingData\<rparr>)
                   else if u_role user = ''user'' then access_denied_user user
                   else \<lparr>status = 403,
                         body = error_body ''Access denied'' ''User not found''\<rparr>))"
  using assms
  by (auto simp: encrypted_protected_data_def access_denied_user_def internal_error_def
        split: option.splits)

theorem encrypted_password_check_witness:
  "demo_decrypt ''hotlkhktpu123'' = ''ahmedadmin123''
   \<and> encrypted_protected_data demo_decrypt (Some ''ahmed_hassan'') (Some ''hotlkhktpu123'')
       (Some demo_encrypted_users) (Some demo_data)
     = \<lparr>status = 200,
        body = GrantedBody ''Access granted - Admin user authenticated''
                 (user_summary (demo_admin\<lparr>u_password := ''hotlkhktpu123''\<rparr>)) demo_data\<rparr>
   \<and> demo_decrypt ''ahmedadmin123'' \<noteq> ''ahmedadmin123''
   \<and> encrypted_protected_data demo_decrypt (Some ''ahmed_hassan'') (Some ''ahmedadmin123'')
       (Some demo_encrypted_users) (Some demo_data)
     = \<lparr>status = 401, body = error_body ''Invalid credentials'' ''User not found''\<rparr>"
proof -
  have ne: "''ahmed_hassan'' \<noteq> []" "''hotlkhktpu123'' \<noteq> []" "''ahmedadmin123'' \<noteq> []"
    by simp_all
  have eq: "demo_decrypt (u_password (demo_admin\<lparr>u_password := ''hotlkhktpu123''\<rparr>))
              = demo_decrypt ''hotlkhktpu123''"
    by simp
  have d: "demo_decrypt (u_password (demo_admin\<lparr>u_password := ''hotlkhktpu123''\<rparr>))
             \<noteq> demo_decrypt ''ahmedadmin123''"
    by (simp add: demo_decrypt_values)
  have role: "u_role (demo_admin\<lparr>u_password := ''hotlkhktpu123''\<rparr>) = ''admin''"
    by (simp add: demo_admin_def)
  note r1 = encrypted_password_check [OF ne(1) ne(2) demo_find_encrypted_users(1),
      where simpleDecrypt = demo_decrypt and mfile = "Some demo_data", THEN conjunct2, THEN conjunct2, THEN mp, OF eq]
  note r2 = encrypted_password_check [OF ne(1) ne(3) demo_find_encrypted_users(1),
      where simpleDecrypt = demo_decrypt and mfile = "Some demo_data", THEN conjunct2, THEN conjunct1, THEN mp, OF d]
  show ?thesis using r1 r2 role by (simp add: demo_decrypt_values)
qed

end
